theory Spec2Isabelle
  imports Main "HOL-Library.Sublist"
begin

section \<open>The JavaScript values the server handles\<close>

text \<open>
  A thrown JavaScript error: the name of its class and its message. The source throws
  \<^verbatim>\<open>new Error(msg)\<close>; the engine throws \<^verbatim>\<open>TypeError\<close> for a property read on
  \<^verbatim>\<open>undefined\<close>; the platform (fetch, the JSON parser, the crypto library) throws
  errors of its own. The messages of the engine's errors are worded as V8 words them.
\<close>

datatype js_error = JsError (err_name: string) (err_message: string)

abbreviation Error :: "string \<Rightarrow> js_error" where
  "Error msg \<equiv> JsError ''Error'' msg"

abbreviation TypeError :: "string \<Rightarrow> js_error" where
  "TypeError msg \<equiv> JsError ''TypeError'' msg"

text \<open>\<^verbatim>\<open>`${e}`\<close> for an error \<open>e\<close>: \<^verbatim>\<open>Error.prototype.toString\<close>.\<close>

definition error_toString :: "js_error \<Rightarrow> string" where
  "error_toString e =
     (if err_name e = [] then err_message e
      else if err_message e = [] then err_name e
      else err_name e @ '': '' @ err_message e)"

text \<open>
  A value as \<^verbatim>\<open>JSON.parse\<close> returns it, and \<^verbatim>\<open>undefined\<close> (a property that is
  absent). JavaScript numbers are IEEE doubles; the model is parametric in their type \<open>'n\<close>
  and reads a number only through the two operations the source applies to one, passed in
  as functions: its truthiness and its conversion to a string.
\<close>

datatype 'n js_value =
    Undefined
  | Null
  | Bool bool
  | Num 'n
  | Str string
  | Arr "'n js_value list"
  | Obj "(string \<times> 'n js_value) list"

text \<open>\<^verbatim>\<open>ToBoolean\<close>: what \<^verbatim>\<open>if (v)\<close>, \<^verbatim>\<open>!v\<close> and \<^verbatim>\<open>v || w\<close> test.\<close>

fun truthy :: "('n \<Rightarrow> bool) \<Rightarrow> 'n js_value \<Rightarrow> bool" where
  "truthy nt Undefined = False"
| "truthy nt Null = False"
| "truthy nt (Bool b) = b"
| "truthy nt (Num n) = nt n"
| "truthy nt (Str s) = (s \<noteq> [])"
| "truthy nt (Arr xs) = True"
| "truthy nt (Obj kvs) = True"

fun join :: "string \<Rightarrow> string list \<Rightarrow> string" where
  "join sep [] = []"
| "join sep [x] = x"
| "join sep (x # y # ys) = x @ sep @ join sep (y # ys)"

text \<open>The results of a list of conversions done in order: the first throw, or all the values.\<close>

fun first_throw :: "(js_error + 'a) list \<Rightarrow> js_error + 'a list" where
  "first_throw [] = Inr []"
| "first_throw (Inl e # rs) = Inl e"
| "first_throw (Inr x # rs) = (case first_throw rs of Inl e \<Rightarrow> Inl e | Inr xs \<Rightarrow> Inr (x # xs))"

text \<open>
  \<^verbatim>\<open>`${v}`\<close> (\<^verbatim>\<open>ToString\<close>) for a parsed JSON value. An array is its elements
  joined by commas, each converted in turn, with \<^verbatim>\<open>null\<close> and \<^verbatim>\<open>undefined\<close>
  elements empty. A plain object is \<^verbatim>\<open>[object Object]\<close>, unless it has a property
  of its own named \<^verbatim>\<open>toString\<close>: that shadows \<^verbatim>\<open>Object.prototype.toString\<close> with a
  value that cannot be called, \<^verbatim>\<open>valueOf\<close> returns the object, and the conversion
  throws a \<^verbatim>\<open>TypeError\<close>.
\<close>

fun js_toString :: "('n \<Rightarrow> string) \<Rightarrow> 'n js_value \<Rightarrow> js_error + string" where
  "js_toString ns Undefined = Inr ''undefined''"
| "js_toString ns Null = Inr ''null''"
| "js_toString ns (Bool b) = Inr (if b then ''true'' else ''false'')"
| "js_toString ns (Num n) = Inr (ns n)"
| "js_toString ns (Str s) = Inr s"
| "js_toString ns (Arr xs) =
     (case first_throw
             (map (\<lambda>x. if x = Undefined \<or> x = Null then Inr [] else js_toString ns x) xs) of
        Inl e \<Rightarrow> Inl e
      | Inr pieces \<Rightarrow> Inr (join '','' pieces))"
| "js_toString ns (Obj kvs) =
     (if map_of kvs ''toString'' = None then Inr ''[object Object]''
      else Inl (TypeError ''Cannot convert object to primitive value''))"

text \<open>
  \<^verbatim>\<open>v.name\<close> for the property names the source reads (\<^verbatim>\<open>active\<close>,
  \<^verbatim>\<open>ticket\<close>, \<^verbatim>\<open>_id\<close> and the three endpoint names; none of them is a property of a
  string, number, boolean or array): a \<^verbatim>\<open>TypeError\<close> on \<^verbatim>\<open>null\<close> and
  \<^verbatim>\<open>undefined\<close>, the member of an object, \<^verbatim>\<open>undefined\<close> otherwise.
\<close>

fun get_prop :: "'n js_value \<Rightarrow> string \<Rightarrow> js_error + 'n js_value" where
  "get_prop Undefined name =
     Inl (TypeError (''Cannot read properties of undefined (reading '' @ [CHR 0x27] @ name @ [CHR 0x27] @ '')''))"
| "get_prop Null name =
     Inl (TypeError (''Cannot read properties of null (reading '' @ [CHR 0x27] @ name @ [CHR 0x27] @ '')''))"
| "get_prop (Obj kvs) name = (case map_of kvs name of Some v \<Rightarrow> Inr v | None \<Rightarrow> Inr Undefined)"
| "get_prop v name = Inr Undefined"

text \<open>
  \<^verbatim>\<open>const { name: x } = v\<close>: as \<^verbatim>\<open>v.name\<close>, with the engine's other wording of the
  \<^verbatim>\<open>TypeError\<close>.
\<close>

fun destructure :: "'n js_value \<Rightarrow> string \<Rightarrow> js_error + 'n js_value" where
  "destructure Undefined name =
     Inl (TypeError (''Cannot destructure property '' @ [CHR 0x27] @ name @ [CHR 0x27]
            @ '' of '' @ [CHR 0x27] @ ''(intermediate value)'' @ [CHR 0x27]
            @ '' as it is undefined.''))"
| "destructure Null name =
     Inl (TypeError (''Cannot destructure property '' @ [CHR 0x27] @ name @ [CHR 0x27]
            @ '' of '' @ [CHR 0x27] @ ''(intermediate value)'' @ [CHR 0x27]
            @ '' as it is null.''))"
| "destructure v name = get_prop v name"

subsection \<open>Strings\<close>

text \<open>
  A string is a list of code units. \<^verbatim>\<open>String.prototype.trim\<close> removes white space and
  line terminators from both ends; of the code units below 256 these are tab, line feed,
  vertical tab, form feed, carriage return, space and no-break space.
\<close>

definition js_whitespace :: "char \<Rightarrow> bool" where
  "js_whitespace c \<longleftrightarrow>
     c \<in> {CHR 0x09, CHR 0x0A, CHR 0x0B, CHR 0x0C, CHR 0x0D, CHR 0x20, CHR 0xA0}"

definition js_trim :: "string \<Rightarrow> string" where
  "js_trim s = rev (dropWhile js_whitespace (rev (dropWhile js_whitespace s)))"

text \<open>
  \<^verbatim>\<open>s.split(sep)\<close> for a non-empty separator: the pieces of \<open>s\<close> between the
  occurrences of \<open>sep\<close>, found from the left and not overlapping. \<open>split_from sep acc s\<close>
  has read \<open>rev acc\<close> of the current piece.
\<close>

function split_from :: "string \<Rightarrow> string \<Rightarrow> string \<Rightarrow> string list" where
  "split_from sep acc [] = [rev acc]"
| "split_from sep acc (c # cs) =
     (if sep \<noteq> [] \<and> prefix sep (c # cs)
      then rev acc # split_from sep [] (drop (length sep) (c # cs))
      else split_from sep (c # acc) cs)"
  by pat_completeness auto
termination
  by (relation "measure (\<lambda>(sep, acc, s). length s)") (auto simp: neq_Nil_conv)

definition js_split :: "string \<Rightarrow> string \<Rightarrow> string list" where
  "js_split sep s = split_from sep [] s"

text \<open>\<^verbatim>\<open>xs[i]\<close> on an array: \<^verbatim>\<open>undefined\<close> (here \<open>None\<close>) out of range.\<close>

definition js_index :: "'a list \<Rightarrow> nat \<Rightarrow> 'a option" where
  "js_index xs i = (if i < length xs then Some (xs ! i) else None)"


definition quoted :: "string \<Rightarrow> string" where
  "quoted s = CHR 0x22 # s @ [CHR 0x22]"

section \<open>Key material: \<^verbatim>\<open>JwkGenerator\<close> (SignedFetcher.ts)\<close>

datatype AsymmetricSigningAlgorithm =
  PS256 | PS384 | PS512 | ES256 | ES256K | ES384 | ES512 | EdDSA | RS256 | RS384 | RS512

text \<open>
  A JWK as the source reads it: its \<^verbatim>\<open>alg\<close>, its \<^verbatim>\<open>kid\<close> (absent on a key that
  \<^verbatim>\<open>exportJWK\<close> returned) and the key material, opaque, of type \<open>'k\<close>.
\<close>

record 'k AlgJwk =
  alg :: AsymmetricSigningAlgorithm
  kid :: "string option"
  material :: 'k

text \<open>
  The functions of \<^verbatim>\<open>jose\<close> and \<^verbatim>\<open>node:crypto\<close> that the generator calls. They are
  not part of the repository and are parameters of the model. Each may throw.
  \<open>generateKeyPair n a\<close> is the private key that the call number \<open>n\<close> (counted from 0)
  returns: the library draws a fresh random key at every call.
\<close>

record 'k crypto =
  generateKeyPair :: "nat \<Rightarrow> AsymmetricSigningAlgorithm \<Rightarrow> js_error + 'k"
  exportJWK :: "'k \<Rightarrow> js_error + 'k"
  importJWK :: "'k AlgJwk option \<Rightarrow> js_error + 'k"
  createPublicKey :: "'k \<Rightarrow> js_error + 'k"

text \<open>
  The backing store is the \<^verbatim>\<open>Map<string, JWKS>\<close> handed to the constructor; it outlives
  the generator. A stored \<^verbatim>\<open>JWKS\<close> is its \<^verbatim>\<open>keys\<close> array. \<open>generations\<close> counts
  the calls of \<^verbatim>\<open>generateKeyPair\<close> made so far.
\<close>

record 'k key_store =
  storage :: "string \<rightharpoonup> 'k AlgJwk list"
  generations :: nat

record 'k JwkGenerator =
  gen_alg :: AsymmetricSigningAlgorithm
  storageKey :: string
  privateJwk :: "'k AlgJwk option"
  publicJwk :: "'k AlgJwk option"

definition new_JwkGenerator :: "AsymmetricSigningAlgorithm \<Rightarrow> string \<Rightarrow> 'k JwkGenerator" where
  "new_JwkGenerator a k = \<lparr>gen_alg = a, storageKey = k, privateJwk = None, publicJwk = None\<rparr>"

text \<open>
  \<^verbatim>\<open>getPrivateKey\<close>, run from its call to its return with no other code in between.
  The result \<open>Inr None\<close> is the value \<^verbatim>\<open>undefined\<close>, which \<^verbatim>\<open>jwks.keys[0]\<close> is for a
  stored key set with no key.
\<close>

definition getPrivateKey ::
  "'k crypto \<Rightarrow> 'k JwkGenerator \<Rightarrow> 'k key_store \<Rightarrow>
     (js_error + 'k AlgJwk option) \<times> 'k JwkGenerator \<times> 'k key_store" where
  "getPrivateKey cr g ks =
     (case privateJwk g of
        Some k \<Rightarrow> (Inr (Some k), g, ks)
      | None \<Rightarrow>
         (case storage ks (storageKey g) of
            Some jwks \<Rightarrow> (Inr (js_index jwks 0), g\<lparr>privateJwk := js_index jwks 0\<rparr>, ks)
          | None \<Rightarrow>
             (let ks1 = ks\<lparr>generations := Suc (generations ks)\<rparr> in
              case generateKeyPair cr (generations ks) (gen_alg g) of
                Inl e \<Rightarrow> (Inl e, g, ks1)
              | Inr privateKey \<Rightarrow>
                 (case exportJWK cr privateKey of
                    Inl e \<Rightarrow> (Inl e, g, ks1)
                  | Inr m \<Rightarrow>
                     (let jwk = \<lparr>alg = gen_alg g, kid = None, material = m\<rparr> in
                      (Inr (Some jwk), g\<lparr>privateJwk := Some jwk\<rparr>,
                       ks1\<lparr>storage := (storage ks1)(storageKey g \<mapsto> [jwk])\<rparr>))))))"

text \<open>
  \<^verbatim>\<open>getPublicKey\<close>. \<^verbatim>\<open>privateJwk.alg\<close> on \<^verbatim>\<open>undefined\<close> is a
  \<^verbatim>\<open>TypeError\<close>.
\<close>

definition getPublicKey ::
  "'k crypto \<Rightarrow> 'k JwkGenerator \<Rightarrow> 'k key_store \<Rightarrow>
     (js_error + 'k AlgJwk) \<times> 'k JwkGenerator \<times> 'k key_store" where
  "getPublicKey cr g ks =
     (case publicJwk g of
        Some k \<Rightarrow> (Inr k, g, ks)
      | None \<Rightarrow>
         (case getPrivateKey cr g ks of
            (Inl e, g1, ks1) \<Rightarrow> (Inl e, g1, ks1)
          | (Inr priv, g1, ks1) \<Rightarrow>
             (case importJWK cr priv of
                Inl e \<Rightarrow> (Inl e, g1, ks1)
              | Inr privateKey \<Rightarrow>
                 (case createPublicKey cr privateKey of
                    Inl e \<Rightarrow> (Inl e, g1, ks1)
                  | Inr publicKey \<Rightarrow>
                     (case exportJWK cr publicKey of
                        Inl e \<Rightarrow> (Inl e, g1, ks1)
                      | Inr m \<Rightarrow>
                         (case priv of
                            None \<Rightarrow>
                              (Inl (TypeError (''Cannot read properties of undefined (reading ''
                                 @ [CHR 0x27] @ ''alg'' @ [CHR 0x27] @ '')'')), g1, ks1)
                          | Some p \<Rightarrow>
                             (let pub = \<lparr>alg = alg p, kid = None, material = m\<rparr> in
                              (Inr pub, g1\<lparr>publicJwk := Some pub\<rparr>, ks1))))))))"


section \<open>Signed requests: \<^verbatim>\<open>SignedFetcher\<close> (SignedFetcher.ts)\<close>

text \<open>
  A request body is a string. Where the source passes \<^verbatim>\<open>JSON.stringify(v)\<close> the model
  keeps the value \<open>v\<close>: the text is a function of it.
\<close>

datatype 'n req_body = Text string | JSON_stringify "'n js_value"

text \<open>
  \<^verbatim>\<open>RequestInit\<close> as the callers fill it; an absent \<^verbatim>\<open>init\<close> and an absent
  \<^verbatim>\<open>headers\<close> are the record with no field set.
\<close>

record 'n RequestInit =
  init_method :: "string option"
  init_headers :: "(string \<times> string) list"
  init_body :: "'n req_body option"

text \<open>
  The \<^verbatim>\<open>request\<close> object that \<^verbatim>\<open>fetch\<close> builds. Its \<^verbatim>\<open>url\<close> is the
  \<^verbatim>\<open>input\<close> as it was passed (\<^verbatim>\<open>input as string\<close> converts nothing). \<^verbatim>\<open>headers\<close>
  is a plain object: the properties in the order they were first set.
\<close>

record 'n request =
  url :: "'n js_value"
  req_method :: string
  headers :: "(string \<times> string) list"
  body :: "'n req_body option"

text \<open>\<^verbatim>\<open>obj[key] = value\<close> on a plain object.\<close>

fun set_property :: "(string \<times> 'a) list \<Rightarrow> string \<Rightarrow> 'a \<Rightarrow> (string \<times> 'a) list" where
  "set_property [] k v = [(k, v)]"
| "set_property ((k', v') # kvs) k v =
     (if k' = k then (k, v) # kvs else (k', v') # set_property kvs k v)"

text \<open>
  The signing key handed to \<^verbatim>\<open>httpbis.signMessage\<close>: \<^verbatim>\<open>id\<close>, \<^verbatim>\<open>alg\<close>, and the
  JWK that its \<^verbatim>\<open>sign\<close> callback closes over.
\<close>

record 'k SigningKey =
  key_id :: "string option"
  key_alg :: AsymmetricSigningAlgorithm
  key_jwk :: "'k AlgJwk"

text \<open>
  A signed message: the request, with the \<^verbatim>\<open>keyid\<close> and \<^verbatim>\<open>alg\<close> parameters of its
  signature header and the signature.
\<close>

record 'n signed_request = "'n request" +
  sig_keyid :: "string option"
  sig_alg :: AsymmetricSigningAlgorithm
  signature :: string

text \<open>What \<^verbatim>\<open>fetch\<close> resolves to, read through \<^verbatim>\<open>status\<close>, \<^verbatim>\<open>json()\<close> and \<^verbatim>\<open>text()\<close>.\<close>

record 'n Response =
  res_status :: nat
  res_json :: "js_error + 'n js_value"
  res_text :: "js_error + string"

text \<open>
  The platform: everything the repository calls and does not define.
  \<^item> \<open>num_truthy\<close>, \<open>num_toString\<close>: the two operations on numbers.
  \<^item> \<open>lib\<close>: the key functions above.
  \<^item> \<open>Headers_forEach\<close>: the entries that \<^verbatim>\<open>new Headers(h).forEach\<close> visits, in
    order (the platform lower-cases and sorts the names, and throws on an invalid one).
  \<^item> \<open>sign\<close>: the signature that \<^verbatim>\<open>signMessage\<close> obtains from the key's
    \<^verbatim>\<open>sign\<close> callback (\<^verbatim>\<open>crypto.subtle.importKey\<close>, \<^verbatim>\<open>crypto.subtle.sign\<close>) for
    the request.
  \<^item> \<open>fetch\<close>: the injected network layer. \<open>fetch n r\<close> is the outcome of sending \<open>r\<close>
    after \<open>n\<close> earlier calls: a rejection, or a response.
\<close>

record ('n, 'k) platform =
  num_truthy :: "'n \<Rightarrow> bool"
  num_toString :: "'n \<Rightarrow> string"
  lib :: "'k crypto"
  Headers_forEach :: "(string \<times> string) list \<Rightarrow> js_error + (string \<times> string) list"
  sign :: "'k SigningKey \<Rightarrow> 'n request \<Rightarrow> js_error + string"
  fetch :: "nat \<Rightarrow> 'n signed_request \<Rightarrow> js_error + 'n Response"

text \<open>
  \<^verbatim>\<open>httpbis.signMessage({ key, paramValues: { keyid } }, request)\<close> of the library
  http-message-signatures, which is not part of the repository. The model follows the
  library in the parameters of the signature that it emits: \<^verbatim>\<open>keyid\<close> is
  \<^verbatim>\<open>paramValues.keyid ?? key.id\<close>, left out when that is absent or empty; \<^verbatim>\<open>alg\<close> is
  \<^verbatim>\<open>key.alg\<close>; the signature is what the key's \<^verbatim>\<open>sign\<close> callback returns, and a
  throw of the callback is a throw of \<^verbatim>\<open>signMessage\<close>. The time stamp of the
  signature is not modelled.
\<close>

definition signMessage ::
  "('n, 'k) platform \<Rightarrow> 'k SigningKey \<Rightarrow> string option \<Rightarrow> 'n request \<Rightarrow>
     js_error + 'n signed_request" where
  "signMessage pf key paramValues_keyid message =
     (case sign pf key message of
        Inl e \<Rightarrow> Inl e
      | Inr sg \<Rightarrow>
          Inr (request.extend message
                 \<lparr>sig_keyid =
                    (case (case paramValues_keyid of Some k \<Rightarrow> Some k | None \<Rightarrow> key_id key) of
                       Some k \<Rightarrow> if k \<noteq> [] then Some k else None
                     | None \<Rightarrow> None),
                  sig_alg = key_alg key,
                  signature = sg\<rparr>))"

text \<open>
  What \<^verbatim>\<open>SignedFetcher.fetch\<close> reads and writes: the generator, its backing store, and
  the requests handed to the injected \<^verbatim>\<open>fetch\<close> so far, oldest first.
\<close>

record ('n, 'k) fetcher_state =
  keyGen :: "'k JwkGenerator"
  keyMap :: "'k key_store"
  outbound :: "'n signed_request list"

definition SignedFetcher_fetch ::
  "('n, 'k) platform \<Rightarrow> string \<Rightarrow> ('n, 'k, 'z) fetcher_state_scheme \<Rightarrow> 'n js_value \<Rightarrow>
     'n RequestInit \<Rightarrow> (js_error + 'n Response) \<times> ('n, 'k, 'z) fetcher_state_scheme" where
  "SignedFetcher_fetch pf baseUrl st input init =
     (case getPrivateKey (lib pf) (keyGen st) (keyMap st) of
        (Inl e, g, ks) \<Rightarrow> (Inl e, st\<lparr>keyGen := g, keyMap := ks\<rparr>)
      | (Inr None, g, ks) \<Rightarrow>
          (Inl (TypeError (''Cannot destructure property '' @ [CHR 0x27] @ ''alg'' @ [CHR 0x27]
                  @ '' of '' @ [CHR 0x27] @ ''jwk'' @ [CHR 0x27] @ '' as it is undefined.'')),
           st\<lparr>keyGen := g, keyMap := ks\<rparr>)
      | (Inr (Some jwk), g, ks) \<Rightarrow>
          (let st1 = st\<lparr>keyGen := g, keyMap := ks\<rparr> in
           if alg jwk = EdDSA then (Inl (Error ''EdDSA signing is not supported''), st1)
           else if alg jwk = ES256K then (Inl (Error ''ES256K signing is not supported''), st1)
           else
             (let key = \<lparr>key_id = kid jwk, key_alg = alg jwk, key_jwk = jwk\<rparr> in
              case Headers_forEach pf (init_headers init) of
                Inl e \<Rightarrow> (Inl e, st1)
              | Inr entries \<Rightarrow>
                  (let request =
                     \<lparr>url = input,
                      req_method = (case init_method init of Some m \<Rightarrow> m | None \<Rightarrow> ''GET''),
                      headers =
                        set_property (foldl (\<lambda>hs (k, v). set_property hs k v) [] entries)
                          ''Authorization'' (''HttpSig cred='' @ quoted baseUrl),
                      body = init_body init\<rparr>
                   in
                   case signMessage pf key (Some ''TODO'') request of
                     Inl e \<Rightarrow> (Inl e, st1)
                   | Inr signed \<Rightarrow>
                       (fetch pf (length (outbound st1)) signed,
                        st1\<lparr>outbound := outbound st1 @ [signed]\<rparr>)))))"


section \<open>The resource server: \<^verbatim>\<open>ResourceServer\<close>\<close>

text \<open>
  The fields the constructor fixes. \<open>authServerUmaConfig\<close> is the promise of the
  constructor, settled: rejected with an error, or resolved to the parsed configuration.
\<close>

record 'n ResourceServer =
  baseUrl :: string
  authServer :: string
  authServerUmaConfig :: "js_error + 'n js_value"

text \<open>The state that requests change: the fetcher's, and the \<^verbatim>\<open>resources\<close> map.\<close>

record ('n, 'k) server_state = "('n, 'k) fetcher_state" +
  resources :: "string \<rightharpoonup> string"

text \<open>
  What a handler leaves on \<^verbatim>\<open>res\<close>: the status code (200 unless set), the headers it
  set, and the argument of \<^verbatim>\<open>res.send\<close> or \<^verbatim>\<open>res.json\<close>; what the framework
  makes of them on the wire is outside the model. A handler that throws before it sends
  leaves none, and the route callbacks of \<^verbatim>\<open>start\<close> catch nothing: the model returns
  the error in the place of the response.
\<close>

datatype 'k sent = Send string | Json_keys "'k AlgJwk list"

record 'k http_response =
  statusCode :: nat
  res_headers :: "(string \<times> string) list"
  res_body :: "'k sent"

text \<open>
  \<^verbatim>\<open>getJWKSConfig\<close>. \<^verbatim>\<open>Object.assign(key, { kid: 'TODO' })\<close> writes into the object
  that \<^verbatim>\<open>getPublicKey\<close> returned, which is the one the generator has cached.
\<close>

definition getJWKSConfig ::
  "('n, 'k) platform \<Rightarrow> ('n, 'k) server_state \<Rightarrow>
     (js_error + 'k http_response) \<times> ('n, 'k) server_state" where
  "getJWKSConfig pf st =
     (case getPublicKey (lib pf) (keyGen st) (keyMap st) of
        (Inl e, g, ks) \<Rightarrow> (Inl e, st\<lparr>keyGen := g, keyMap := ks\<rparr>)
      | (Inr key, g, ks) \<Rightarrow>
          (let assigned = key\<lparr>kid := Some ''TODO''\<rparr> in
           (Inr \<lparr>statusCode = 200, res_headers = [], res_body = Json_keys [assigned]\<rparr>,
            st\<lparr>keyGen := g\<lparr>publicJwk := Some assigned\<rparr>, keyMap := ks\<rparr>)))"

text \<open>
  The \<^verbatim>\<open>catch\<close> of \<^verbatim>\<open>getResource\<close>: whatever the \<^verbatim>\<open>try\<close> block threw is thrown
  again inside a new \<^verbatim>\<open>Error\<close>.
\<close>

definition catch_rethrow :: "js_error \<Rightarrow> js_error" where
  "catch_rethrow e = Error (''Could not verify access token: '' @ error_toString e)"

text \<open>The class of the error with which a handler ended, when it threw.\<close>

definition thrown_class :: "js_error + 'a \<Rightarrow> string option" where
  "thrown_class outcome = (case outcome of Inl e \<Rightarrow> Some (err_name e) | Inr r \<Rightarrow> None)"

definition not_found :: string where
  "not_found = ''Resource not found in Resource Server Storage''"

text \<open>
  The second argument of the two calls of \<^verbatim>\<open>this.fetcher.fetch\<close> in
  \<^verbatim>\<open>getResource\<close>: the introspection of a token, and the request for a ticket.
\<close>

definition introspection_init :: "string \<Rightarrow> 'n RequestInit" where
  "introspection_init token =
     \<lparr>init_method = Some ''POST'',
      init_headers =
        [(''Content-Type'', ''application/x-www-form-urlencoded''),
         (''Accept'', ''application/json'')],
      init_body = Some (Text (''token_type_hint=access_token&token='' @ token))\<rparr>"

definition ticket_init :: "string \<Rightarrow> 'n RequestInit" where
  "ticket_init resourceURI =
     \<lparr>init_method = Some ''POST'',
      init_headers = [(''Content-Type'', ''application/json'')],
      init_body = Some (JSON_stringify
        (Arr [Obj [(''resource_id'', Str resourceURI),
                   (''resource_scopes'', Arr [Str ''urn:example:css:modes:read''])]]))\<rparr>"

text \<open>The branch \<^verbatim>\<open>if (authHeader)\<close> of \<^verbatim>\<open>getResource\<close>.\<close>

definition getResource_token ::
  "('n, 'k) platform \<Rightarrow> 'n ResourceServer \<Rightarrow> ('n, 'k) server_state \<Rightarrow> string \<Rightarrow>
     'n js_value \<Rightarrow> string \<Rightarrow> (js_error + 'k http_response) \<times> ('n, 'k) server_state" where
  "getResource_token pf rs st resourceURI asUmaConfig authHeader =
     (case js_index (js_split ''Bearer'' authHeader) 1 of
        None \<Rightarrow>
          (Inl (TypeError (''Cannot read properties of undefined (reading ''
             @ [CHR 0x27] @ ''trim'' @ [CHR 0x27] @ '')'')), st)
      | Some piece \<Rightarrow>
          (let token = js_trim piece in
           case get_prop asUmaConfig ''introspection_endpoint'' of
             Inl e \<Rightarrow> (Inl e, st)
           | Inr introspection_endpoint \<Rightarrow>
               (case SignedFetcher_fetch pf (baseUrl rs) st introspection_endpoint
                       (introspection_init token) of
                  (Inl e, st1) \<Rightarrow> (Inl (catch_rethrow e), st1)
                | (Inr res, st1) \<Rightarrow>
                    (case res_json res of
                       Inl e \<Rightarrow> (Inl (catch_rethrow e), st1)
                     | Inr introspectionResponse \<Rightarrow>
                         (case get_prop introspectionResponse ''active'' of
                            Inl e \<Rightarrow> (Inl (catch_rethrow e), st1)
                          | Inr active \<Rightarrow>
                              if \<not> truthy (num_truthy pf) active
                              then (Inl (catch_rethrow (Error
                                      ''Could not verify access token with introspection response.'')),
                                    st1)
                              else
                                (Inr \<lparr>statusCode = 200, res_headers = [],
                                      res_body = Send
                                        (case resources st1 resourceURI of
                                           Some resource \<Rightarrow>
                                             if resource \<noteq> [] then resource else not_found
                                         | None \<Rightarrow> not_found)\<rparr>,
                                 st1))))))"

text \<open>The \<^verbatim>\<open>else\<close> branch of \<^verbatim>\<open>getResource\<close>.\<close>

definition getResource_ticket ::
  "('n, 'k) platform \<Rightarrow> 'n ResourceServer \<Rightarrow> ('n, 'k) server_state \<Rightarrow> string \<Rightarrow>
     'n js_value \<Rightarrow> (js_error + 'k http_response) \<times> ('n, 'k) server_state" where
  "getResource_ticket pf rs st resourceURI asUmaConfig =
     (case get_prop asUmaConfig ''permission_endpoint'' of
        Inl e \<Rightarrow> (Inl e, st)
      | Inr permission_endpoint \<Rightarrow>
          (case SignedFetcher_fetch pf (baseUrl rs) st permission_endpoint
                  (ticket_init resourceURI) of
             (Inl e, st1) \<Rightarrow> (Inl e, st1)
           | (Inr ticketRequest, st1) \<Rightarrow>
               (case res_json ticketRequest of
                  Inl e \<Rightarrow> (Inl e, st1)
                | Inr response \<Rightarrow>
                    (case get_prop response ''ticket'' of
                       Inl e \<Rightarrow> (Inl e, st1)
                     | Inr ticket \<Rightarrow>
                         (case js_toString (num_toString pf) ticket of
                            Inl e \<Rightarrow> (Inl e, st1)
                          | Inr ticket_text \<Rightarrow>
                              (let umaAuthHeader =
                                     ''UMA realm='' @ quoted ''solid''
                                     @ '',as_uri='' @ quoted (authServer rs)
                                     @ '',ticket='' @ quoted ticket_text
                               in (Inr \<lparr>statusCode = 401,
                                        res_headers = [(''WWW-Authenticate'', umaAuthHeader)],
                                        res_body = Send ''401 Unauthenticated''\<rparr>,
                                   st1)))))))"

text \<open>
  \<^verbatim>\<open>getResource(req, res)\<close>, from \<^verbatim>\<open>req.url\<close> and \<^verbatim>\<open>req.header('Authorization')\<close>
  (\<open>None\<close> when the request has no such header). \<^verbatim>\<open>if (authHeader)\<close> holds for a
  header that is present and not the empty string.
\<close>

definition getResource ::
  "('n, 'k) platform \<Rightarrow> 'n ResourceServer \<Rightarrow> ('n, 'k) server_state \<Rightarrow> string \<Rightarrow>
     string option \<Rightarrow> (js_error + 'k http_response) \<times> ('n, 'k) server_state" where
  "getResource pf rs st req_url authorization =
     (let resourceURI = baseUrl rs @ js_trim req_url in
      case authServerUmaConfig rs of
        Inl e \<Rightarrow> (Inl e, st)
      | Inr asUmaConfig \<Rightarrow>
          (case authorization of
             None \<Rightarrow> getResource_ticket pf rs st resourceURI asUmaConfig
           | Some authHeader \<Rightarrow>
               if authHeader \<noteq> []
               then getResource_token pf rs st resourceURI asUmaConfig authHeader
               else getResource_ticket pf rs st resourceURI asUmaConfig))"

text \<open>
  \<^verbatim>\<open>postResource(req, res)\<close>, from \<^verbatim>\<open>req.url\<close> and \<^verbatim>\<open>req.body\<close> (\<open>None\<close> when
  the body is \<^verbatim>\<open>undefined\<close>). It does not throw. The third component is the argument
  of the call of \<^verbatim>\<open>registerResourceToAS\<close> that it starts and does not await, if it
  starts one.
\<close>

definition postResource ::
  "'n ResourceServer \<Rightarrow> ('n, 'k) server_state \<Rightarrow> string \<Rightarrow> string option \<Rightarrow>
     'k http_response \<times> ('n, 'k) server_state \<times> string option" where
  "postResource rs st req_url req_body =
     (let resourceURI = baseUrl rs @ js_trim req_url in
      if (case resources st resourceURI of Some r \<Rightarrow> r \<noteq> [] | None \<Rightarrow> False)
      then (\<lparr>statusCode = 200, res_headers = [],
             res_body = Send ''Resource already exists in Demo UMA Resource Server!''\<rparr>,
            st, None)
      else
        (let st1 = (case req_body of
                      Some resource \<Rightarrow>
                        if resource \<noteq> []
                        then st\<lparr>resources := (resources st)(resourceURI \<mapsto> resource)\<rparr>
                        else st
                    | None \<Rightarrow> st)
         in (\<lparr>statusCode = 204, res_headers = [],
              res_body = Send (''Resource saved at '' @ resourceURI)\<rparr>,
             st1, Some resourceURI)))"


text \<open>
  \<^verbatim>\<open>registerResourceToAS\<close>, which \<^verbatim>\<open>postResource\<close> starts in the background. It
  ends in one of three ways: the promise it returns is rejected (the configuration
  promise was, or the configuration is \<^verbatim>\<open>null\<close>); its \<^verbatim>\<open>catch\<close> handler logs a
  warning; or the registration is logged with the id the server returned.
\<close>

datatype registration = Rejected js_error | Warned string | Registered string

definition registerResourceToAS ::
  "('n, 'k) platform \<Rightarrow> 'n ResourceServer \<Rightarrow> ('n, 'k) server_state \<Rightarrow> string \<Rightarrow>
     registration \<times> ('n, 'k) server_state" where
  "registerResourceToAS pf rs st resourcePath =
     (case authServerUmaConfig rs of
        Inl e \<Rightarrow> (Rejected e, st)
      | Inr asUmaConfig \<Rightarrow>
          (case get_prop asUmaConfig ''resource_registration_endpoint'' of
             Inl e \<Rightarrow> (Rejected e, st)
           | Inr endpoint \<Rightarrow>
               (let description =
                      Obj [(''resource_scopes'',
                            Arr [Str ''urn:example:css:modes:read'',
                                 Str ''urn:example:css:modes:append'',
                                 Str ''urn:example:css:modes:create'',
                                 Str ''urn:example:css:modes:delete'',
                                 Str ''urn:example:css:modes:write''])];
                    warning = (\<lambda>error.
                      ''Something went wrong during UMA resource registration to create ''
                        @ resourcePath @ '': '' @ err_message error)
                in
                case SignedFetcher_fetch pf (baseUrl rs) st endpoint
                       \<lparr>init_method = Some ''POST'',
                        init_headers = [(''Content-Type'', ''application/json''),
                                        (''Accept'', ''application/json'')],
                        init_body = Some (JSON_stringify description)\<rparr> of
                  (Inl e, st1) \<Rightarrow> (Warned (warning e), st1)
                | (Inr resp, st1) \<Rightarrow>
                    (if res_status resp \<noteq> 201
                     then (case res_text resp of
                             Inl e \<Rightarrow> (Warned (warning e), st1)
                           | Inr t \<Rightarrow>
                               (Warned (warning
                                  (Error (''Resource registration request failed. '' @ t))), st1))
                     else
                       (case res_json resp of
                          Inl e \<Rightarrow> (Warned (warning e), st1)
                        | Inr j \<Rightarrow>
                            (case destructure j ''_id'' of
                               Inl e \<Rightarrow> (Warned (warning e), st1)
                             | Inr (Str umaId) \<Rightarrow>
                                 if umaId \<noteq> [] then (Registered umaId, st1)
                                 else (Warned (warning (Error
                                         ''Unexpected response from UMA server; no UMA id received.'')),
                                       st1)
                             | Inr _ \<Rightarrow>
                                 (Warned (warning (Error
                                    ''Unexpected response from UMA server; no UMA id received.'')),
                                  st1)))))))"

subsection \<open>Requests one after another\<close>

text \<open>
  A request as the router hands it to a handler. \<open>handle\<close> runs the handler and, after a
  POST, the registration it started, to the end; \<open>run\<close> handles a list of requests in
  order. A handler that throws leaves the state it had reached.
\<close>

datatype event = Get_jwks | Get string "string option" | Post string "string option"

fun handle ::
  "('n, 'k) platform \<Rightarrow> 'n ResourceServer \<Rightarrow> ('n, 'k) server_state \<Rightarrow> event \<Rightarrow>
     ('n, 'k) server_state" where
  "handle pf rs st Get_jwks = snd (getJWKSConfig pf st)"
| "handle pf rs st (Get req_url authorization) = snd (getResource pf rs st req_url authorization)"
| "handle pf rs st (Post req_url req_body) =
     (case postResource rs st req_url req_body of
        (r, st1, None) \<Rightarrow> st1
      | (r, st1, Some resourcePath) \<Rightarrow> snd (registerResourceToAS pf rs st1 resourcePath))"

definition run ::
  "('n, 'k) platform \<Rightarrow> 'n ResourceServer \<Rightarrow> ('n, 'k) server_state \<Rightarrow> event list \<Rightarrow>
     ('n, 'k) server_state" where
  "run pf rs st evs = foldl (handle pf rs) st evs"

text \<open>
  The state the constructor leaves: a generator for \<^verbatim>\<open>ES256\<close> under the storage key
  \<^verbatim>\<open>jwks\<close> over a new, empty \<^verbatim>\<open>Map\<close>, and no resource.
\<close>

definition initial_state :: "('n, 'k) server_state" where
  "initial_state =
     \<lparr>keyGen = new_JwkGenerator ES256 ''jwks'',
      keyMap = \<lparr>storage = Map.empty, generations = 0\<rparr>,
      outbound = [],
      resources = Map.empty\<rparr>"

section \<open>\<^verbatim>\<open>getPrivateKey\<close> between its suspension points\<close>

text \<open>
  \<^verbatim>\<open>getPrivateKey\<close> is an \<^verbatim>\<open>async\<close> function: it runs without interruption up to an
  \<^verbatim>\<open>await\<close>, where it is suspended and other code runs, among it other calls of
  \<^verbatim>\<open>getPrivateKey\<close> on the same generator. A call is at one of these points; a
  suspended call holds the value it awaits.
\<close>

datatype 'k call =
    Called
  | Await_storage_get "'k AlgJwk list option"
  | Await_generateKeyPair "js_error + 'k"
  | Await_exportJWK "js_error + 'k"
  | Await_storage_set "'k AlgJwk"
  | Returned "js_error + 'k AlgJwk option"

text \<open>One uninterrupted stretch of a call: from where it is to its next \<^verbatim>\<open>await\<close> or return.\<close>

fun resume ::
  "'k crypto \<Rightarrow> 'k call \<Rightarrow> 'k JwkGenerator \<Rightarrow> 'k key_store \<Rightarrow>
     'k call \<times> 'k JwkGenerator \<times> 'k key_store" where
  "resume cr Called g ks =
     (case privateJwk g of
        Some k \<Rightarrow> (Returned (Inr (Some k)), g, ks)
      | None \<Rightarrow> (Await_storage_get (storage ks (storageKey g)), g, ks))"
| "resume cr (Await_storage_get (Some jwks)) g ks =
     (Returned (Inr (js_index jwks 0)), g\<lparr>privateJwk := js_index jwks 0\<rparr>, ks)"
| "resume cr (Await_storage_get None) g ks =
     (Await_generateKeyPair (generateKeyPair cr (generations ks) (gen_alg g)), g,
      ks\<lparr>generations := Suc (generations ks)\<rparr>)"
| "resume cr (Await_generateKeyPair (Inl e)) g ks = (Returned (Inl e), g, ks)"
| "resume cr (Await_generateKeyPair (Inr privateKey)) g ks =
     (Await_exportJWK (exportJWK cr privateKey), g, ks)"
| "resume cr (Await_exportJWK (Inl e)) g ks = (Returned (Inl e), g, ks)"
| "resume cr (Await_exportJWK (Inr m)) g ks =
     (let jwk = \<lparr>alg = gen_alg g, kid = None, material = m\<rparr> in
      (Await_storage_set jwk, g, ks\<lparr>storage := (storage ks)(storageKey g \<mapsto> [jwk])\<rparr>))"
| "resume cr (Await_storage_set jwk) g ks =
     (Returned (Inr (Some jwk)), g\<lparr>privateJwk := Some jwk\<rparr>, ks)"
| "resume cr (Returned r) g ks = (Returned r, g, ks)"

text \<open>
  Several calls on one generator. A schedule names, stretch by stretch, the call that
  runs next; a name that is no call's is skipped.
\<close>

fun interleave ::
  "'k crypto \<Rightarrow> nat list \<Rightarrow> 'k call list \<Rightarrow> 'k JwkGenerator \<Rightarrow> 'k key_store \<Rightarrow>
     'k call list \<times> 'k JwkGenerator \<times> 'k key_store" where
  "interleave cr [] calls g ks = (calls, g, ks)"
| "interleave cr (i # schedule) calls g ks =
     (if i < length calls
      then (case resume cr (calls ! i) g ks of
              (c, g1, ks1) \<Rightarrow> interleave cr schedule (calls[i := c]) g1 ks1)
      else interleave cr schedule calls g ks)"


section \<open>A platform to run the model on\<close>

text \<open>
  A stand-in for the world outside the repository, as a test would mock it. Numbers and
  key material are natural numbers: the key pair of generation \<open>n\<close> has the private key
  \<open>2 * n\<close>, and the public key of a private key is its successor.
\<close>

function show_nat :: "nat \<Rightarrow> string" where
  "show_nat n =
     (if n < 10 then [char_of (48 + n)] else show_nat (n div 10) @ [char_of (48 + n mod 10)])"
  by pat_completeness auto
termination
  by (relation "measure id") auto

definition mock_crypto :: "nat crypto" where
  "mock_crypto =
     \<lparr>generateKeyPair = (\<lambda>n a. Inr (2 * n)),
      exportJWK = Inr,
      importJWK = (\<lambda>j. case j of
                          None \<Rightarrow> Inl (TypeError ''JWK must be an object'')
                        | Some k \<Rightarrow> Inr (material k)),
      createPublicKey = (\<lambda>k. Inr (Suc k))\<rparr>"

definition ascii_lower :: "char \<Rightarrow> char" where
  "ascii_lower c =
     (case map_of (zip ''ABCDEFGHIJKLMNOPQRSTUVWXYZ'' ''abcdefghijklmnopqrstuvwxyz'') c of
        Some l \<Rightarrow> l
      | None \<Rightarrow> c)"

text \<open>
  The authorization server of the mock. Its configuration names three endpoints. It
  answers a ticket request with the ticket \<^verbatim>\<open>T\<close>, a registration with status 201 and
  an id, and an introspection with the JSON value \<open>introspection\<close>; a request to any other
  URL fails as a network error does.
\<close>

definition mock_config :: "nat js_value" where
  "mock_config =
     Obj [(''permission_endpoint'', Str ''http://localhost:4000/uma/ticket''),
          (''introspection_endpoint'', Str ''http://localhost:4000/uma/introspect''),
          (''resource_registration_endpoint'', Str ''http://localhost:4000/uma/resources'')]"

definition mock_AS :: "nat js_value \<Rightarrow> nat \<Rightarrow> nat signed_request \<Rightarrow> js_error + nat Response" where
  "mock_AS introspection n r =
     (if url r = Str ''http://localhost:4000/uma/ticket''
      then Inr \<lparr>res_status = 200, res_json = Inr (Obj [(''ticket'', Str ''T'')]),
                res_text = Inr []\<rparr>
      else if url r = Str ''http://localhost:4000/uma/introspect''
      then Inr \<lparr>res_status = 200, res_json = Inr introspection, res_text = Inr []\<rparr>
      else if url r = Str ''http://localhost:4000/uma/resources''
      then Inr \<lparr>res_status = 201, res_json = Inr (Obj [(''_id'', Str ''id1'')]),
                res_text = Inr []\<rparr>
      else Inl (TypeError ''fetch failed''))"

text \<open>A network layer whose every call is rejected with the error \<open>e\<close>.\<close>

definition mock_rejecting :: "js_error \<Rightarrow> nat \<Rightarrow> nat signed_request \<Rightarrow> js_error + nat Response" where
  "mock_rejecting e n r = Inl e"

text \<open>A server that answers every request with a page that is not JSON.\<close>

definition mock_not_JSON :: "nat \<Rightarrow> nat signed_request \<Rightarrow> js_error + nat Response" where
  "mock_not_JSON n r =
     Inr \<lparr>res_status = 200,
          res_json = Inl (JsError ''SyntaxError'' ''Unexpected token < in JSON at position 0''),
          res_text = Inr ''<html></html>''\<rparr>"

definition mock_platform ::
  "(nat \<Rightarrow> nat signed_request \<Rightarrow> js_error + nat Response) \<Rightarrow> (nat, nat) platform" where
  "mock_platform network =
     \<lparr>num_truthy = (\<lambda>n. n \<noteq> 0),
      num_toString = show_nat,
      lib = mock_crypto,
      Headers_forEach = (\<lambda>h. Inr (map (\<lambda>(k, v). (map ascii_lower k, v)) h)),
      sign = (\<lambda>key r. Inr ''signature''),
      fetch = network\<rparr>"

definition mock_server :: "nat ResourceServer" where
  "mock_server =
     \<lparr>baseUrl = ''http://localhost:3565'',
      authServer = ''http://localhost:4000/uma'',
      authServerUmaConfig = Inr mock_config\<rparr>"

text \<open>The mock server after \<^verbatim>\<open>POST /r1\<close> with the body \<^verbatim>\<open>hello\<close>.\<close>

definition posted_hello :: "(nat, nat) server_state" where
  "posted_hello =
     handle (mock_platform (mock_AS Null)) mock_server initial_state (Post ''/r1'' (Some ''hello''))"

text \<open>
  The key store before any key, and the first call of \<^verbatim>\<open>getPrivateKey\<close> on a new
  generator over it.
\<close>

definition empty_store :: "nat key_store" where
  "empty_store = \<lparr>storage = Map.empty, generations = 0\<rparr>"

definition first_call ::
  "(js_error + nat AlgJwk option) \<times> nat JwkGenerator \<times> nat key_store" where
  "first_call = getPrivateKey mock_crypto (new_JwkGenerator ES256 ''jwks'') empty_store"

text \<open>The request for a ticket for \<^verbatim>\<open>/r1\<close>, as the mock server signs and sends it.\<close>

definition signed_ticket_request :: "nat signed_request" where
  "signed_ticket_request =
     \<lparr>url = Str ''http://localhost:4000/uma/ticket'', req_method = ''POST'',
      headers = [(''content-type'', ''application/json''),
                 (''Authorization'', ''HttpSig cred='' @ quoted ''http://localhost:3565'')],
      body = Some (JSON_stringify
               (Arr [Obj [(''resource_id'', Str ''http://localhost:3565/r1''),
                          (''resource_scopes'', Arr [Str ''urn:example:css:modes:read''])]])),
      sig_keyid = Some ''TODO'', sig_alg = ES256, signature = ''signature''\<rparr>"

section \<open>Facts about the model\<close>

subsection \<open>Values and strings\<close>

text \<open>The values that \<^verbatim>\<open>!v\<close> holds for.\<close>

lemma falsy_values:
  "\<not> truthy nt v \<longleftrightarrow>
     v = Undefined \<or> v = Null \<or> v = Bool False \<or> v = Str [] \<or> (\<exists>n. v = Num n \<and> \<not> nt n)"
  by (cases v) auto

lemma split_from_no_occurrence:
  "\<not> sublist sep s \<Longrightarrow> split_from sep acc s = [rev acc @ s]"
proof (induction s arbitrary: acc)
  case Nil
  then show ?case by simp
next
  case (Cons c cs)
  from Cons.prems have np: "\<not> prefix sep (c # cs)" and ns: "\<not> sublist sep cs"
    by (simp_all add: sublist_Cons_right)
  from Cons.IH [OF ns, of "c # acc"] np show ?case by simp
qed

lemma js_split_no_occurrence:
  "\<not> sublist sep s \<Longrightarrow> js_index (js_split sep s) (Suc 0) = None"
  by (simp add: js_split_def split_from_no_occurrence js_index_def)

subsection \<open>What a signed call changes\<close>

lemma SignedFetcher_fetch_resources:
  fixes st :: "('n, 'k) server_state"
  shows "resources (snd (SignedFetcher_fetch pf b st input init)) = resources st"
  by (simp add: SignedFetcher_fetch_def Let_def split: prod.splits sum.splits option.splits)

lemma SignedFetcher_fetch_Inr:
  assumes "SignedFetcher_fetch pf b st input init = (Inr res, st1)"
  shows "\<exists>signed. outbound st1 = outbound st @ [signed] \<and> url signed = input
           \<and> req_method signed = (case init_method init of Some m \<Rightarrow> m | None \<Rightarrow> ''GET'')
           \<and> body signed = init_body init \<and> sig_keyid signed = Some ''TODO''
           \<and> fetch pf (length (outbound st)) signed = Inr res"
  using assms
  by (auto simp add: SignedFetcher_fetch_def signMessage_def Let_def request.defs
        split: prod.splits sum.splits option.splits if_splits)

lemma SignedFetcher_fetch_outbound:
  assumes "SignedFetcher_fetch pf b st input init = (r, st1)"
  shows "outbound st1 = outbound st \<or>
         (\<exists>signed. outbound st1 = outbound st @ [signed] \<and> sig_keyid signed = Some ''TODO'')"
  using assms
  by (auto simp add: SignedFetcher_fetch_def signMessage_def Let_def request.defs
        split: prod.splits sum.splits option.splits if_splits)

lemma SignedFetcher_fetch_resourcesD:
  fixes st :: "('n, 'k) server_state"
  shows "SignedFetcher_fetch pf b st input init = (r, st1) \<Longrightarrow> resources st1 = resources st"
  using SignedFetcher_fetch_resources [of pf b st input init] by simp

lemma registerResourceToAS_resources:
  "resources (snd (registerResourceToAS pf rs st p)) = resources st"
  by (auto simp add: registerResourceToAS_def Let_def dest: SignedFetcher_fetch_resourcesD
        split: prod.splits sum.splits option.splits if_splits js_value.splits)

lemma getResource_resources:
  "resources (snd (getResource pf rs st u a)) = resources st"
  by (auto simp add: getResource_def getResource_token_def getResource_ticket_def Let_def
        dest: SignedFetcher_fetch_resourcesD
        split: prod.splits sum.splits option.splits if_splits)

lemma getJWKSConfig_resources:
  "resources (snd (getJWKSConfig pf st)) = resources st"
  by (simp add: getJWKSConfig_def Let_def split: prod.splits sum.splits)

lemma postResource_keeps:
  assumes "resources st u = Some c" and "c \<noteq> []"
  shows "resources (fst (snd (postResource rs st req_url req_body))) u = Some c"
  using assms by (auto simp add: postResource_def Let_def split: option.splits)

lemma handle_keeps:
  assumes "resources st u = Some c" and "c \<noteq> []"
  shows "resources (handle pf rs st ev) u = Some c"
proof (cases ev)
  case Get_jwks
  with assms show ?thesis by (simp add: getJWKSConfig_resources)
next
  case (Get req_url authorization)
  with assms show ?thesis by (simp add: getResource_resources)
next
  case (Post req_url req_body)
  obtain r st1 reg where p: "postResource rs st req_url req_body = (r, st1, reg)"
    by (cases "postResource rs st req_url req_body") auto
  from postResource_keeps [OF assms, of rs req_url req_body] p
  have "resources st1 u = Some c" by simp
  with Post p show ?thesis
    by (cases reg) (simp_all add: registerResourceToAS_resources)
qed

lemma run_keeps:
  assumes "resources st u = Some c" and "c \<noteq> []"
  shows "resources (run pf rs st evs) u = Some c"
  using assms(1)
proof (induction evs arbitrary: st)
  case Nil
  then show ?case by (simp add: run_def)
next
  case (Cons ev evs)
  from handle_keeps [OF Cons.prems assms(2)]
  have "resources (handle pf rs st ev) u = Some c" .
  from Cons.IH [OF this] show ?case by (simp add: run_def)
qed

lemma first_post_stores:
  assumes "resources st (baseUrl rs @ js_trim req_url) = None" and "content \<noteq> []"
  shows "resources (handle pf rs st (Post req_url (Some content))) (baseUrl rs @ js_trim req_url)
           = Some content"
  using assms by (simp add: postResource_def Let_def registerResourceToAS_resources)

subsection \<open>The two branches of \<^verbatim>\<open>getResource\<close>\<close>

lemma getResource_token_outcome:
  assumes config: "authServerUmaConfig rs = Inr asUmaConfig"
      and header: "authHeader \<noteq> []"
      and bearer: "js_index (js_split ''Bearer'' authHeader) 1 = Some piece"
      and endpoint: "get_prop asUmaConfig ''introspection_endpoint'' = Inr introspection_endpoint"
  shows "getResource pf rs st req_url (Some authHeader) =
     (case SignedFetcher_fetch pf (baseUrl rs) st introspection_endpoint
             (introspection_init (js_trim piece)) of
        (Inl e, st1) \<Rightarrow> (Inl (catch_rethrow e), st1)
      | (Inr res, st1) \<Rightarrow>
          (case res_json res of
             Inl e \<Rightarrow> (Inl (catch_rethrow e), st1)
           | Inr introspectionResponse \<Rightarrow>
               (case get_prop introspectionResponse ''active'' of
                  Inl e \<Rightarrow> (Inl (catch_rethrow e), st1)
                | Inr active \<Rightarrow>
                    if \<not> truthy (num_truthy pf) active
                    then (Inl (catch_rethrow (Error
                            ''Could not verify access token with introspection response.'')), st1)
                    else
                      (Inr \<lparr>statusCode = 200, res_headers = [],
                            res_body = Send
                              (case resources st1 (baseUrl rs @ js_trim req_url) of
                                 Some resource \<Rightarrow> if resource \<noteq> [] then resource else not_found
                               | None \<Rightarrow> not_found)\<rparr>,
                       st1))))"
  using assms by (simp add: getResource_def getResource_token_def Let_def)

lemma getResource_ticket_outcome:
  assumes config: "authServerUmaConfig rs = Inr asUmaConfig"
      and no_header: "authorization = None \<or> authorization = Some []"
  shows "getResource pf rs st req_url authorization =
           getResource_ticket pf rs st (baseUrl rs @ js_trim req_url) asUmaConfig"
  using assms by (auto simp add: getResource_def Let_def)

subsection \<open>The key generator\<close>

lemma getPrivateKey_cached:
  "privateJwk g = Some k \<Longrightarrow> getPrivateKey cr g ks = (Inr (Some k), g, ks)"
  by (simp add: getPrivateKey_def)

lemma getPrivateKey_stored:
  "privateJwk g = None \<Longrightarrow> storage ks (storageKey g) = Some jwks \<Longrightarrow>
     getPrivateKey cr g ks = (Inr (js_index jwks 0), g\<lparr>privateJwk := js_index jwks 0\<rparr>, ks)"
  by (simp add: getPrivateKey_def)

lemma getPrivateKey_persisted:
  assumes none: "privateJwk g = None"
      and got: "getPrivateKey cr g ks = (Inr (Some k), g1, ks1)"
  shows "(\<exists>jwks. storage ks1 (storageKey g) = Some jwks \<and> js_index jwks 0 = Some k)
         \<and> g1 = g\<lparr>privateJwk := Some k\<rparr>"
proof (cases "storage ks (storageKey g)")
  case (Some jwks)
  with none got show ?thesis
    by (simp add: getPrivateKey_def) (metis Some)
next
  case None
  show ?thesis
  proof (cases "generateKeyPair cr (generations ks) (gen_alg g)")
    case (Inl e)
    with none None got show ?thesis
      by (simp add: getPrivateKey_def Let_def)
  next
    case (Inr privateKey)
    show ?thesis
    proof (cases "exportJWK cr privateKey")
      case (Inl e)
      with none None Inr got show ?thesis
        by (simp add: getPrivateKey_def Let_def)
    next
      case m: (Inr m)
      from none None Inr m got
      have "k = \<lparr>alg = gen_alg g, kid = None, material = m\<rparr>"
        and "g1 = g\<lparr>privateJwk := Some k\<rparr>"
        and "storage ks1 (storageKey g) = Some [k]"
        by (auto simp add: getPrivateKey_def Let_def)
      then show ?thesis
        by (simp add: js_index_def)
    qed
  qed
qed

lemma getJWKSConfig_kid:
  assumes "getJWKSConfig pf st = (Inr resp, st2)"
  shows "\<exists>key. res_body resp = Json_keys [key\<lparr>kid := Some ''TODO''\<rparr>]"
  using assms
  by (auto simp add: getJWKSConfig_def Let_def split: prod.splits sum.splits)

text \<open>
  A call that nothing interrupts goes through at most five stretches, and they compose to
  \<open>getPrivateKey\<close>.
\<close>

lemma interleave_alone:
  "interleave cr [0, 0, 0, 0, 0] [Called] g ks =
     ([Returned (fst (getPrivateKey cr g ks))], snd (getPrivateKey cr g ks))"
  by (simp add: getPrivateKey_def Let_def split: option.splits sum.splits)

section \<open>The claims\<close>

subsection \<open>Reading a resource\<close>

text \<open>
  Claim C1 (as amended). A GET carries a bearer token, the configuration is there, and the
  signed introspection call returns a response whose JSON has a falsy \<^verbatim>\<open>active\<close>:
  absent, \<^verbatim>\<open>false\<close>, \<^verbatim>\<open>null\<close>, the empty string or a falsy number (lemma
  \<open>falsy_values\<close>). Then \<^verbatim>\<open>getResource\<close> throws the \<^verbatim>\<open>Error\<close> with the message
  \<^verbatim>\<open>Could not verify access token: Error: Could not verify access token with
  introspection response.\<close> and sends no response, so the stored content does not reach
  the client. The test is \<^verbatim>\<open>!introspectionResponse.active\<close>: a value of \<^verbatim>\<open>active\<close>
  that is truthy and is not \<^verbatim>\<open>true\<close>, such as the string \<^verbatim>\<open>"false"\<close>, passes it
  and the content is sent, as the second theorem after this one shows.
\<close>

theorem getResource_inactive_token:
  assumes config: "authServerUmaConfig rs = Inr asUmaConfig"
      and header: "authHeader \<noteq> []"
      and bearer: "js_index (js_split ''Bearer'' authHeader) 1 = Some piece"
      and endpoint: "get_prop asUmaConfig ''introspection_endpoint'' = Inr introspection_endpoint"
      and call: "fst (SignedFetcher_fetch pf (baseUrl rs) st introspection_endpoint
                   (introspection_init (js_trim piece))) = Inr res"
      and json: "res_json res = Inr introspectionResponse"
      and active: "get_prop introspectionResponse ''active'' = Inr active"
      and falsy: "\<not> truthy (num_truthy pf) active"
  shows "getResource pf rs st req_url (Some authHeader) =
           (Inl (Error ''Could not verify access token: Error: Could not verify access token with introspection response.''),
            snd (SignedFetcher_fetch pf (baseUrl rs) st introspection_endpoint
                   (introspection_init (js_trim piece))))"
proof -
  obtain r st1 where fetched:
    "SignedFetcher_fetch pf (baseUrl rs) st introspection_endpoint
       (introspection_init (js_trim piece)) = (r, st1)"
    by (cases "SignedFetcher_fetch pf (baseUrl rs) st introspection_endpoint
                 (introspection_init (js_trim piece))")
  with call have "r = Inr res" by simp
  with fetched json active falsy show ?thesis
    by (simp add: getResource_token_outcome [OF config header bearer endpoint]
          catch_rethrow_def error_toString_def)
qed

theorem getResource_inactive_token_witness:
  "\<not> truthy (num_truthy (mock_platform (mock_AS (Obj [(''active'', Bool False)])))) (Bool False)
   \<and> fst (getResource (mock_platform (mock_AS (Obj [(''active'', Bool False)]))) mock_server
            posted_hello ''/r1'' (Some ''Bearer X''))
     = Inl (Error ''Could not verify access token: Error: Could not verify access token with introspection response.'')"
proof -
  let ?pf = "mock_platform (mock_AS (Obj [(''active'', Bool False)]))"
  have config: "authServerUmaConfig mock_server = Inr mock_config"
    by (simp add: mock_server_def)
  have header: "''Bearer X'' \<noteq> []"
    by simp
  have bearer: "js_index (js_split ''Bearer'' ''Bearer X'') 1 = Some '' X''"
    by code_simp
  have endpoint: "get_prop mock_config ''introspection_endpoint''
                    = Inr (Str ''http://localhost:4000/uma/introspect'')"
    by code_simp
  have call: "fst (SignedFetcher_fetch ?pf (baseUrl mock_server) posted_hello
                     (Str ''http://localhost:4000/uma/introspect'')
                     (introspection_init (js_trim '' X'')))
                = Inr \<lparr>res_status = 200, res_json = Inr (Obj [(''active'', Bool False)]),
                       res_text = Inr []\<rparr>"
    by code_simp
  have json: "res_json \<lparr>res_status = 200, res_json = Inr (Obj [(''active'', Bool False)]),
                       res_text = Inr []\<rparr> = Inr (Obj [(''active'', Bool False)] :: nat js_value)"
    by simp
  have active: "get_prop (Obj [(''active'', Bool False)] :: nat js_value) ''active'' = Inr (Bool False)"
    by simp
  have falsy: "\<not> truthy (num_truthy ?pf) (Bool False)"
    by simp
  from getResource_inactive_token [OF config header bearer endpoint call json active falsy, of "''/r1''"]
    falsy
  show ?thesis by simp
qed

theorem getResource_truthy_active_counterexample:
  "get_prop (Obj [(''active'', Str ''false'')] :: nat js_value) ''active'' \<noteq> Inr (Bool True)
   \<and> fst (getResource (mock_platform (mock_AS (Obj [(''active'', Str ''false'')]))) mock_server
            posted_hello ''/r1'' (Some ''Bearer X''))
       = Inr \<lparr>statusCode = 200, res_headers = [], res_body = Send ''hello''\<rparr>"
  by code_simp

text \<open>
  Claim C2. A GET with no \<^verbatim>\<open>Authorization\<close> header (or an empty one), answered by the
  authorization server with JSON that holds a string \<^verbatim>\<open>ticket\<close>: the server has sent
  one signed POST to the permission endpoint of the configuration, with the body
  \<^verbatim>\<open>[{resource_id: <uri>, resource_scopes: ["urn:example:css:modes:read"]}]\<close>, and
  responds with status 401, the body \<^verbatim>\<open>401 Unauthenticated\<close> and the header
  \<^verbatim>\<open>WWW-Authenticate: UMA realm="solid",as_uri="<authServer>",ticket="<ticket>"\<close>.
\<close>

theorem getResource_challenge:
  assumes config: "authServerUmaConfig rs = Inr asUmaConfig"
      and no_header: "authorization = None \<or> authorization = Some []"
      and endpoint: "get_prop asUmaConfig ''permission_endpoint'' = Inr permission_endpoint"
      and call: "fst (SignedFetcher_fetch pf (baseUrl rs) st permission_endpoint
                        (ticket_init (baseUrl rs @ js_trim req_url))) = Inr ticketRequest"
      and json: "res_json ticketRequest = Inr response"
      and ticket: "get_prop response ''ticket'' = Inr (Str ticket)"
  shows "fst (getResource pf rs st req_url authorization) =
           Inr \<lparr>statusCode = 401,
                res_headers =
                  [(''WWW-Authenticate'',
                    ''UMA realm='' @ quoted ''solid'' @ '',as_uri='' @ quoted (authServer rs)
                      @ '',ticket='' @ quoted ticket)],
                res_body = Send ''401 Unauthenticated''\<rparr>
         \<and> (\<exists>signed.
               outbound (snd (getResource pf rs st req_url authorization)) = outbound st @ [signed]
               \<and> url signed = permission_endpoint
               \<and> req_method signed = ''POST''
               \<and> body signed = Some (JSON_stringify
                    (Arr [Obj [(''resource_id'', Str (baseUrl rs @ js_trim req_url)),
                               (''resource_scopes'', Arr [Str ''urn:example:css:modes:read''])]]))
               \<and> fetch pf (length (outbound st)) signed = Inr ticketRequest)"
proof -
  obtain r st1 where fetched:
    "SignedFetcher_fetch pf (baseUrl rs) st permission_endpoint
       (ticket_init (baseUrl rs @ js_trim req_url)) = (r, st1)"
    by (cases "SignedFetcher_fetch pf (baseUrl rs) st permission_endpoint
                 (ticket_init (baseUrl rs @ js_trim req_url))")
  with call have r: "r = Inr ticketRequest" by simp
  from fetched r endpoint json ticket
  have result: "getResource pf rs st req_url authorization =
           (Inr \<lparr>statusCode = 401,
                res_headers =
                  [(''WWW-Authenticate'',
                    ''UMA realm='' @ quoted ''solid'' @ '',as_uri='' @ quoted (authServer rs)
                      @ '',ticket='' @ quoted ticket)],
                res_body = Send ''401 Unauthenticated''\<rparr>, st1)"
    by (simp add: getResource_ticket_outcome [OF config no_header] getResource_ticket_def)
  from SignedFetcher_fetch_Inr [OF fetched [unfolded r]]
  obtain signed where "outbound st1 = outbound st @ [signed]" "url signed = permission_endpoint"
    "req_method signed = (case init_method (ticket_init (baseUrl rs @ js_trim req_url) :: 'a RequestInit) of
                            Some m \<Rightarrow> m | None \<Rightarrow> ''GET'')"
    "body signed = init_body (ticket_init (baseUrl rs @ js_trim req_url))"
    "fetch pf (length (outbound st)) signed = Inr ticketRequest"
    by blast
  with result show ?thesis
    by (auto simp add: ticket_init_def)
qed

theorem getResource_challenge_witness:
  "fst (getResource (mock_platform (mock_AS Null)) mock_server posted_hello ''/r1'' None) =
     Inr \<lparr>statusCode = 401,
          res_headers =
            [(''WWW-Authenticate'',
              ''UMA realm='' @ quoted ''solid'' @ '',as_uri='' @ quoted ''http://localhost:4000/uma''
                @ '',ticket='' @ quoted ''T'')],
          res_body = Send ''401 Unauthenticated''\<rparr>"
proof -
  let ?pf = "mock_platform (mock_AS Null)"
  have config: "authServerUmaConfig mock_server = Inr mock_config"
    by (simp add: mock_server_def)
  have no_header: "None = None \<or> None = Some ([] :: string)"
    by simp
  have endpoint: "get_prop mock_config ''permission_endpoint''
                    = Inr (Str ''http://localhost:4000/uma/ticket'')"
    by code_simp
  have call: "fst (SignedFetcher_fetch ?pf (baseUrl mock_server) posted_hello
                     (Str ''http://localhost:4000/uma/ticket'')
                     (ticket_init (baseUrl mock_server @ js_trim ''/r1'')))
                = Inr \<lparr>res_status = 200, res_json = Inr (Obj [(''ticket'', Str ''T'')]),
                       res_text = Inr []\<rparr>"
    by code_simp
  have json: "res_json \<lparr>res_status = 200, res_json = Inr (Obj [(''ticket'', Str ''T'')]),
                       res_text = Inr []\<rparr> = Inr (Obj [(''ticket'', Str ''T'')] :: nat js_value)"
    by simp
  have ticket: "get_prop (Obj [(''ticket'', Str ''T'')] :: nat js_value) ''ticket'' = Inr (Str ''T'')"
    by simp
  have as_uri: "authServer mock_server = ''http://localhost:4000/uma''"
    by (simp add: mock_server_def)
  from getResource_challenge [OF config no_header endpoint call json ticket, THEN conjunct1]
  show ?thesis
    by (simp only: as_uri)
qed

text \<open>
  Claim C3. A GET carries a bearer token and the signed introspection call returns JSON
  with \<^verbatim>\<open>active: true\<close>. If the store holds content under the URI, the response is
  status 200 with exactly that content; so it is with the content of a first POST to the
  URI, whatever requests came between. If the store holds nothing under the URI, the
  response is status 200 with the body \<^verbatim>\<open>Resource not found in Resource Server
  Storage\<close>: a response, where an inactive token is a throw.
\<close>

theorem getResource_active_token:
  assumes config: "authServerUmaConfig rs = Inr asUmaConfig"
      and header: "authHeader \<noteq> []"
      and bearer: "js_index (js_split ''Bearer'' authHeader) 1 = Some piece"
      and endpoint: "get_prop asUmaConfig ''introspection_endpoint'' = Inr introspection_endpoint"
      and call: "fst (SignedFetcher_fetch pf (baseUrl rs) st introspection_endpoint
                   (introspection_init (js_trim piece))) = Inr res"
      and json: "res_json res = Inr introspectionResponse"
      and active: "get_prop introspectionResponse ''active'' = Inr (Bool True)"
  shows "(\<forall>content. resources st (baseUrl rs @ js_trim req_url) = Some content \<and> content \<noteq> [] \<longrightarrow>
            fst (getResource pf rs st req_url (Some authHeader)) =
              Inr \<lparr>statusCode = 200, res_headers = [], res_body = Send content\<rparr>)
       \<and> (\<forall>st0 content evs.
            resources st0 (baseUrl rs @ js_trim req_url) = None \<and> content \<noteq> [] \<and>
            st = run pf rs (handle pf rs st0 (Post req_url (Some content))) evs \<longrightarrow>
            fst (getResource pf rs st req_url (Some authHeader)) =
              Inr \<lparr>statusCode = 200, res_headers = [], res_body = Send content\<rparr>)
       \<and> (resources st (baseUrl rs @ js_trim req_url) = None \<longrightarrow>
            fst (getResource pf rs st req_url (Some authHeader)) =
              Inr \<lparr>statusCode = 200, res_headers = [],
                   res_body = Send ''Resource not found in Resource Server Storage''\<rparr>)"
proof -
  obtain r st1 where fetched:
    "SignedFetcher_fetch pf (baseUrl rs) st introspection_endpoint
       (introspection_init (js_trim piece)) = (r, st1)"
    by (cases "SignedFetcher_fetch pf (baseUrl rs) st introspection_endpoint
                 (introspection_init (js_trim piece))")
  with call have r: "r = Inr res" by simp
  from SignedFetcher_fetch_resourcesD [OF fetched]
  have same: "resources st1 = resources st" .
  from fetched r json active same
  have result: "fst (getResource pf rs st req_url (Some authHeader)) =
      Inr \<lparr>statusCode = 200, res_headers = [],
           res_body = Send
             (case resources st (baseUrl rs @ js_trim req_url) of
                Some resource \<Rightarrow> if resource \<noteq> [] then resource else not_found
              | None \<Rightarrow> not_found)\<rparr>"
    by (simp add: getResource_token_outcome [OF config header bearer endpoint])
  have known: "fst (getResource pf rs st req_url (Some authHeader)) =
              Inr \<lparr>statusCode = 200, res_headers = [], res_body = Send content\<rparr>"
    if "resources st (baseUrl rs @ js_trim req_url) = Some content" and "content \<noteq> []"
    for content
    using that result by simp
  have posted: "fst (getResource pf rs st req_url (Some authHeader)) =
              Inr \<lparr>statusCode = 200, res_headers = [], res_body = Send content\<rparr>"
    if "resources st0 (baseUrl rs @ js_trim req_url) = None" and "content \<noteq> []"
      and "st = run pf rs (handle pf rs st0 (Post req_url (Some content))) evs"
    for st0 content evs
  proof -
    from first_post_stores [OF that(1,2)]
    have "resources (handle pf rs st0 (Post req_url (Some content)))
            (baseUrl rs @ js_trim req_url) = Some content" .
    from run_keeps [OF this that(2)] that(3)
    have "resources st (baseUrl rs @ js_trim req_url) = Some content" by simp
    from known [OF this that(2)] show ?thesis .
  qed
  have unknown: "fst (getResource pf rs st req_url (Some authHeader)) =
              Inr \<lparr>statusCode = 200, res_headers = [],
                   res_body = Send ''Resource not found in Resource Server Storage''\<rparr>"
    if "resources st (baseUrl rs @ js_trim req_url) = None"
    using that result by (simp add: not_found_def)
  from known posted unknown show ?thesis by blast
qed

theorem getResource_active_token_witness:
  "fst (getResource (mock_platform (mock_AS (Obj [(''active'', Bool True)]))) mock_server
          posted_hello ''/r1'' (Some ''Bearer X''))
     = Inr \<lparr>statusCode = 200, res_headers = [], res_body = Send ''hello''\<rparr>
   \<and> fst (getResource (mock_platform (mock_AS (Obj [(''active'', Bool True)]))) mock_server
          posted_hello ''/r2'' (Some ''Bearer X''))
     = Inr \<lparr>statusCode = 200, res_headers = [],
            res_body = Send ''Resource not found in Resource Server Storage''\<rparr>"
proof -
  let ?pf = "mock_platform (mock_AS (Obj [(''active'', Bool True)]))"
  have config: "authServerUmaConfig mock_server = Inr mock_config"
    by (simp add: mock_server_def)
  have header: "''Bearer X'' \<noteq> []"
    by simp
  have bearer: "js_index (js_split ''Bearer'' ''Bearer X'') 1 = Some '' X''"
    by code_simp
  have endpoint: "get_prop mock_config ''introspection_endpoint''
                    = Inr (Str ''http://localhost:4000/uma/introspect'')"
    by code_simp
  have call: "fst (SignedFetcher_fetch ?pf (baseUrl mock_server) posted_hello
                     (Str ''http://localhost:4000/uma/introspect'')
                     (introspection_init (js_trim '' X'')))
                = Inr \<lparr>res_status = 200, res_json = Inr (Obj [(''active'', Bool True)]),
                       res_text = Inr []\<rparr>"
    by code_simp
  have json: "res_json \<lparr>res_status = 200, res_json = Inr (Obj [(''active'', Bool True)]),
                       res_text = Inr []\<rparr> = Inr (Obj [(''active'', Bool True)] :: nat js_value)"
    by simp
  have active: "get_prop (Obj [(''active'', Bool True)] :: nat js_value) ''active'' = Inr (Bool True)"
    by simp
  have stored: "resources posted_hello (baseUrl mock_server @ js_trim ''/r1'') = Some ''hello''
                  \<and> ''hello'' \<noteq> []"
    by code_simp
  have absent: "resources posted_hello (baseUrl mock_server @ js_trim ''/r2'') = None"
    by code_simp
  note t = getResource_active_token [OF config header bearer endpoint call json active]
  show ?thesis
    apply (rule conjI)
     apply (rule t [of "''/r1''", THEN conjunct1, rule_format, OF stored])
    apply (rule t [of "''/r2''", THEN conjunct2, THEN conjunct2, rule_format, OF absent])
    done
qed

text \<open>
  Claim C6 (as amended). A GET carries a bearer token and the introspection call itself
  fails: the signed fetch is rejected with an error \<open>e\<close>, or the response is not JSON and
  \<^verbatim>\<open>json()\<close> is rejected with \<open>e\<close>. Then \<^verbatim>\<open>getResource\<close> throws the \<^verbatim>\<open>Error\<close>
  with the message \<^verbatim>\<open>Could not verify access token: <e as a string>\<close> and sends no
  response. The one \<^verbatim>\<open>catch\<close> also wraps the error of an inactive token: the
  failures are of one class, \<^verbatim>\<open>Error\<close>, with one prefix, and differ in the text after
  it only. The second theorem after this one shows it for the rejection of the platform's
  \<^verbatim>\<open>fetch\<close> (a \<^verbatim>\<open>TypeError\<close>), for a response that is not JSON (a
  \<^verbatim>\<open>SyntaxError\<close> of \<^verbatim>\<open>json()\<close>) and for an inactive token.
\<close>

theorem getResource_introspection_failure:
  assumes config: "authServerUmaConfig rs = Inr asUmaConfig"
      and header: "authHeader \<noteq> []"
      and bearer: "js_index (js_split ''Bearer'' authHeader) 1 = Some piece"
      and endpoint: "get_prop asUmaConfig ''introspection_endpoint'' = Inr introspection_endpoint"
      and failure:
        "fst (SignedFetcher_fetch pf (baseUrl rs) st introspection_endpoint
                (introspection_init (js_trim piece))) = Inl e
         \<or> (\<exists>res. fst (SignedFetcher_fetch pf (baseUrl rs) st introspection_endpoint
                         (introspection_init (js_trim piece))) = Inr res
                  \<and> res_json res = Inl e)"
  shows "getResource pf rs st req_url (Some authHeader) =
           (Inl (Error (''Could not verify access token: '' @ error_toString e)),
            snd (SignedFetcher_fetch pf (baseUrl rs) st introspection_endpoint
                   (introspection_init (js_trim piece))))"
proof -
  obtain r st1 where fetched:
    "SignedFetcher_fetch pf (baseUrl rs) st introspection_endpoint
       (introspection_init (js_trim piece)) = (r, st1)"
    by (cases "SignedFetcher_fetch pf (baseUrl rs) st introspection_endpoint
                 (introspection_init (js_trim piece))")
  with failure have "r = Inl e \<or> (\<exists>res. r = Inr res \<and> res_json res = Inl e)"
    by simp
  with fetched show ?thesis
    by (auto simp add: getResource_token_outcome [OF config header bearer endpoint]
          catch_rethrow_def)
qed

theorem getResource_introspection_failure_witness:
  "fst (getResource (mock_platform (mock_rejecting (TypeError ''fetch failed''))) mock_server
          posted_hello ''/r1'' (Some ''Bearer X''))
     = Inl (Error (''Could not verify access token: '' @ ''TypeError: fetch failed''))
   \<and> fst (getResource (mock_platform mock_not_JSON) mock_server
          posted_hello ''/r1'' (Some ''Bearer X''))
     = Inl (Error (''Could not verify access token: ''
                    @ ''SyntaxError: Unexpected token < in JSON at position 0''))"
proof -
  let ?down = "mock_platform (mock_rejecting (TypeError ''fetch failed''))"
  let ?page = "mock_platform mock_not_JSON"
  have config: "authServerUmaConfig mock_server = Inr mock_config"
    by (simp add: mock_server_def)
  have header: "''Bearer X'' \<noteq> []"
    by simp
  have bearer: "js_index (js_split ''Bearer'' ''Bearer X'') 1 = Some '' X''"
    by code_simp
  have endpoint: "get_prop mock_config ''introspection_endpoint''
                    = Inr (Str ''http://localhost:4000/uma/introspect'')"
    by code_simp
  have rejected: "fst (SignedFetcher_fetch ?down (baseUrl mock_server) posted_hello
                     (Str ''http://localhost:4000/uma/introspect'')
                     (introspection_init (js_trim '' X''))) = Inl (TypeError ''fetch failed'')"
    by code_simp
  have page: "fst (SignedFetcher_fetch ?page (baseUrl mock_server) posted_hello
                     (Str ''http://localhost:4000/uma/introspect'')
                     (introspection_init (js_trim '' X'')))
                = Inr \<lparr>res_status = 200,
                       res_json = Inl (JsError ''SyntaxError'' ''Unexpected token < in JSON at position 0''),
                       res_text = Inr ''<html></html>''\<rparr>"
    by code_simp
  have not_json: "\<exists>res. fst (SignedFetcher_fetch ?page (baseUrl mock_server) posted_hello
                     (Str ''http://localhost:4000/uma/introspect'')
                     (introspection_init (js_trim '' X''))) = Inr res
                \<and> res_json res = Inl (JsError ''SyntaxError'' ''Unexpected token < in JSON at position 0'')"
    using page by simp
  have name1: "error_toString (TypeError ''fetch failed'') = ''TypeError: fetch failed''"
    by (simp add: error_toString_def)
  have name2: "error_toString (JsError ''SyntaxError'' ''Unexpected token < in JSON at position 0'')
                 = ''SyntaxError: Unexpected token < in JSON at position 0''"
    by (simp add: error_toString_def)
  from getResource_introspection_failure [OF config header bearer endpoint disjI1 [OF rejected],
         of "''/r1''"]
       getResource_introspection_failure [OF config header bearer endpoint disjI2 [OF not_json],
         of "''/r1''"]
  show ?thesis
    by (simp only: fst_conv name1 name2 simp_thms)
qed

theorem getResource_introspection_failure_counterexample:
  "fst (getResource (mock_platform (mock_rejecting (TypeError ''fetch failed''))) mock_server
          posted_hello ''/r1'' (Some ''Bearer X''))
     = Inl (JsError ''Error'' (''Could not verify access token: '' @ ''TypeError: fetch failed''))
   \<and> fst (getResource (mock_platform mock_not_JSON) mock_server
          posted_hello ''/r1'' (Some ''Bearer X''))
     = Inl (JsError ''Error'' (''Could not verify access token: ''
              @ ''SyntaxError: Unexpected token < in JSON at position 0''))
   \<and> fst (getResource (mock_platform (mock_AS (Obj [(''active'', Bool False)]))) mock_server
          posted_hello ''/r1'' (Some ''Bearer X''))
     = Inl (JsError ''Error'' (''Could not verify access token: ''
              @ ''Error: Could not verify access token with introspection response.''))
   \<and> thrown_class (fst (getResource (mock_platform (mock_rejecting (TypeError ''fetch failed'')))
          mock_server posted_hello ''/r1'' (Some ''Bearer X'')))
     = thrown_class (fst (getResource (mock_platform (mock_AS (Obj [(''active'', Bool False)])))
          mock_server posted_hello ''/r1'' (Some ''Bearer X'')))
   \<and> thrown_class (fst (getResource (mock_platform mock_not_JSON)
          mock_server posted_hello ''/r1'' (Some ''Bearer X'')))
     = thrown_class (fst (getResource (mock_platform (mock_AS (Obj [(''active'', Bool False)])))
          mock_server posted_hello ''/r1'' (Some ''Bearer X'')))"
  by code_simp

text \<open>
  Claim C9. A GET whose \<^verbatim>\<open>Authorization\<close> header is present (not the empty string)
  and does not contain \<^verbatim>\<open>Bearer\<close> throws: \<^verbatim>\<open>split("Bearer")[1]\<close> is
  \<^verbatim>\<open>undefined\<close> and \<^verbatim>\<open>.trim()\<close> on it is a \<^verbatim>\<open>TypeError\<close> (when the
  configuration promise was rejected, its error is thrown before that). No response is
  sent, and the state is unchanged: no request has gone out to the authorization server.
\<close>

theorem getResource_without_Bearer:
  assumes "authHeader \<noteq> []" and "\<not> sublist ''Bearer'' authHeader"
  shows "getResource pf rs st req_url (Some authHeader) =
           (Inl (case authServerUmaConfig rs of
                   Inl e \<Rightarrow> e
                 | Inr asUmaConfig \<Rightarrow>
                     TypeError (''Cannot read properties of undefined (reading ''
                       @ [CHR 0x27] @ ''trim'' @ [CHR 0x27] @ '')'')),
            st)"
  using assms
  by (simp add: getResource_def getResource_token_def js_split_no_occurrence split: sum.splits)

theorem getResource_without_Bearer_witness:
  "''Basic xyz'' \<noteq> [] \<and> \<not> sublist ''Bearer'' ''Basic xyz'' \<and>
   getResource (mock_platform (mock_AS Null)) mock_server initial_state ''/r1'' (Some ''Basic xyz'') =
     (Inl (TypeError (''Cannot read properties of undefined (reading ''
                       @ [CHR 0x27] @ ''trim'' @ [CHR 0x27] @ '')'')), initial_state)"
proof -
  have ne: "''Basic xyz'' \<noteq> []" by simp
  have ns: "\<not> sublist ''Bearer'' ''Basic xyz''" by code_simp
  show ?thesis
    using getResource_without_Bearer [OF ne ns, of "mock_platform (mock_AS Null)" mock_server initial_state "''/r1''"] ne ns
    by (simp add: mock_server_def)
qed

subsection \<open>Writing a resource\<close>

text \<open>
  Claim C4. Once a first POST has stored content under a URI, the content stays under
  that URI whatever requests follow, and every later POST to the URI, whatever its body,
  is answered with status 200 and the body
  \<^verbatim>\<open>Resource already exists in Demo UMA Resource Server!\<close>; it changes nothing of
  the state and starts no registration.
\<close>

theorem second_post_already_exists:
  assumes absent: "resources st (baseUrl rs @ js_trim req_url) = None"
      and content: "content \<noteq> []"
      and first: "st1 = handle pf rs st (Post req_url (Some content))"
      and later: "st2 = run pf rs st1 evs"
  shows "resources st1 (baseUrl rs @ js_trim req_url) = Some content
       \<and> resources st2 (baseUrl rs @ js_trim req_url) = Some content
       \<and> postResource rs st2 req_url req_body =
           (\<lparr>statusCode = 200, res_headers = [],
             res_body = Send ''Resource already exists in Demo UMA Resource Server!''\<rparr>,
            st2, None)"
proof -
  have stored: "resources st1 (baseUrl rs @ js_trim req_url) = Some content"
    using absent content first
    by (simp add: postResource_def Let_def registerResourceToAS_resources)
  from run_keeps [OF stored content] later
  have kept: "resources st2 (baseUrl rs @ js_trim req_url) = Some content" by simp
  with content have "postResource rs st2 req_url req_body =
           (\<lparr>statusCode = 200, res_headers = [],
             res_body = Send ''Resource already exists in Demo UMA Resource Server!''\<rparr>,
            st2, None)"
    by (simp add: postResource_def Let_def)
  with stored kept show ?thesis by simp
qed


theorem second_post_already_exists_witness:
  "resources (initial_state :: (nat, nat) server_state) ''http://localhost:3565/r1'' = None
   \<and> ''hello'' \<noteq> []
   \<and> resources posted_hello ''http://localhost:3565/r1'' = Some ''hello''
   \<and> resources (run (mock_platform (mock_AS Null)) mock_server posted_hello
                  [Post ''/r1'' (Some ''bye''), Get ''/r1'' None])
        ''http://localhost:3565/r1'' = Some ''hello''
   \<and> postResource mock_server
         (run (mock_platform (mock_AS Null)) mock_server posted_hello
            [Post ''/r1'' (Some ''bye''), Get ''/r1'' None])
         ''/r1'' (Some ''again'') =
       (\<lparr>statusCode = 200, res_headers = [],
         res_body = Send ''Resource already exists in Demo UMA Resource Server!''\<rparr>,
        run (mock_platform (mock_AS Null)) mock_server posted_hello
          [Post ''/r1'' (Some ''bye''), Get ''/r1'' None],
        None)"
proof -
  have uri: "baseUrl mock_server @ js_trim ''/r1'' = ''http://localhost:3565/r1''"
    by (simp add: mock_server_def js_trim_def js_whitespace_def)
  have absent: "resources (initial_state :: (nat, nat) server_state)
                  (baseUrl mock_server @ js_trim ''/r1'') = None"
    by (simp add: initial_state_def)
  have hello: "''hello'' \<noteq> []"
    by simp
  note t = second_post_already_exists [OF absent hello posted_hello_def refl,
             of "[Post ''/r1'' (Some ''bye''), Get ''/r1'' None]" "Some ''again''", unfolded uri]
  show ?thesis
    apply (intro conjI)
        apply (rule absent [unfolded uri])
       apply (rule hello)
      apply (rule t [THEN conjunct1])
     apply (rule t [THEN conjunct2, THEN conjunct1])
    apply (rule t [THEN conjunct2, THEN conjunct2])
    done
qed

text \<open>
  Claim C10. A POST with an absent or empty body to a URI that the store does not hold is
  answered with status 204 and \<^verbatim>\<open>Resource saved at <uri>\<close>, and starts the
  registration of the URI, yet the store is the same after the request and its
  registration as before; a later POST with a body that is not empty then stores its
  content under the URI.
\<close>

theorem postResource_falsy_body:
  assumes absent: "resources st (baseUrl rs @ js_trim req_url) = None"
      and falsy: "req_body = None \<or> req_body = Some []"
  shows "postResource rs st req_url req_body =
           (\<lparr>statusCode = 204, res_headers = [],
             res_body = Send (''Resource saved at '' @ baseUrl rs @ js_trim req_url)\<rparr>,
            st, Some (baseUrl rs @ js_trim req_url))
         \<and> resources (handle pf rs st (Post req_url req_body)) = resources st
         \<and> (\<forall>content. content \<noteq> [] \<longrightarrow>
               resources (fst (snd (postResource rs (handle pf rs st (Post req_url req_body))
                                      req_url (Some content))))
                 (baseUrl rs @ js_trim req_url) = Some content)"
proof -
  have first: "postResource rs st req_url req_body =
           (\<lparr>statusCode = 204, res_headers = [],
             res_body = Send (''Resource saved at '' @ baseUrl rs @ js_trim req_url)\<rparr>,
            st, Some (baseUrl rs @ js_trim req_url))"
    using assms by (auto simp add: postResource_def Let_def)
  then have same: "resources (handle pf rs st (Post req_url req_body)) = resources st"
    by (simp add: registerResourceToAS_resources)
  have later: "resources (fst (snd (postResource rs (handle pf rs st (Post req_url req_body))
                                      req_url (Some content))))
                 (baseUrl rs @ js_trim req_url) = Some content" if "content \<noteq> []" for content
    using that absent same by (simp add: postResource_def Let_def)
  from first same later show ?thesis by blast
qed

theorem postResource_falsy_body_witness:
  "resources (initial_state :: (nat, nat) server_state) ''http://localhost:3565/r1'' = None
   \<and> postResource mock_server (initial_state :: (nat, nat) server_state) ''/r1'' (Some []) =
       (\<lparr>statusCode = 204, res_headers = [],
         res_body = Send (''Resource saved at '' @ ''http://localhost:3565/r1'')\<rparr>,
        initial_state, Some ''http://localhost:3565/r1'')
   \<and> resources (handle (mock_platform (mock_AS Null)) mock_server initial_state
                  (Post ''/r1'' (Some []))) =
       resources (initial_state :: (nat, nat) server_state)
   \<and> resources (fst (snd (postResource mock_server
         (handle (mock_platform (mock_AS Null)) mock_server initial_state (Post ''/r1'' (Some [])))
         ''/r1'' (Some ''hello'')))) ''http://localhost:3565/r1'' = Some ''hello''"
proof -
  have uri: "baseUrl mock_server @ js_trim ''/r1'' = ''http://localhost:3565/r1''"
    by (simp add: mock_server_def js_trim_def js_whitespace_def)
  have absent: "resources (initial_state :: (nat, nat) server_state)
                  (baseUrl mock_server @ js_trim ''/r1'') = None"
    by (simp add: initial_state_def)
  have falsy: "Some [] = None \<or> Some [] = Some ([] :: string)"
    by simp
  have hello: "''hello'' \<noteq> []"
    by simp
  note t = postResource_falsy_body [OF absent falsy, of "mock_platform (mock_AS Null)", unfolded uri]
  show ?thesis
    apply (intro conjI)
       apply (rule absent [unfolded uri])
      apply (rule t [THEN conjunct1])
     apply (rule t [THEN conjunct2, THEN conjunct1])
    apply (rule t [THEN conjunct2, THEN conjunct2, rule_format, OF hello])
    done
qed

subsection \<open>Keys and signatures\<close>

text \<open>
  Claim C5. Two calls of \<^verbatim>\<open>getPrivateKey\<close> on a new generator over an empty store,
  each resumed in turn: both find the cache and the store empty before either has stored
  a key, so \<^verbatim>\<open>generateKeyPair\<close> is called twice, whatever the library returns. On the
  mock library the two callers get different keys, and the store keeps the second. The
  code does not hold the claim of a single generation for concurrent first callers.
\<close>

theorem concurrent_first_calls_generate_twice:
  "generations (snd (snd (interleave cr [0, 1, 0, 1] [Called, Called] (new_JwkGenerator a k)
                            \<lparr>storage = Map.empty, generations = n\<rparr>))) = n + 2
   \<and> fst (interleave mock_crypto [0, 1, 0, 1, 0, 1, 0, 1, 0, 1] [Called, Called]
            (new_JwkGenerator ES256 ''jwks'') empty_store) =
       [Returned (Inr (Some \<lparr>alg = ES256, kid = None, material = 0\<rparr>)),
        Returned (Inr (Some \<lparr>alg = ES256, kid = None, material = 2\<rparr>))]
   \<and> generations (snd (snd (interleave mock_crypto [0, 1, 0, 1, 0, 1, 0, 1, 0, 1] [Called, Called]
            (new_JwkGenerator ES256 ''jwks'') empty_store))) = 2
   \<and> storage (snd (snd (interleave mock_crypto [0, 1, 0, 1, 0, 1, 0, 1, 0, 1] [Called, Called]
            (new_JwkGenerator ES256 ''jwks'') empty_store))) ''jwks'' =
       Some [\<lparr>alg = ES256, kid = None, material = 2\<rparr>]"
proof (intro conjI)
  show "generations (snd (snd (interleave cr [0, 1, 0, 1] [Called, Called] (new_JwkGenerator a k)
                            \<lparr>storage = Map.empty, generations = n\<rparr>))) = n + 2"
    by (simp add: new_JwkGenerator_def)
qed code_simp+

text \<open>
  Claim C7. \<^verbatim>\<open>getPrivateKey\<close> returns the cached key when there is one; otherwise
  the first key stored under the storage key when there is one, which it caches;
  otherwise it calls \<^verbatim>\<open>generateKeyPair\<close> once and, when that and \<^verbatim>\<open>exportJWK\<close>
  succeed, stores and caches the new key. It changes the store in the last case only.
  After a call that started with an empty cache and returned a key, a new generator over
  the same store and storage key returns that key and leaves the store (and the count of
  generations) as it is. \<^verbatim>\<open>getPublicKey\<close> on the new generator, and on the first one
  when it has no public key cached, is \<^verbatim>\<open>importJWK\<close>, \<^verbatim>\<open>createPublicKey\<close> and
  \<^verbatim>\<open>exportJWK\<close> applied in turn to that private key, with the \<^verbatim>\<open>alg\<close> of the
  private key and no \<^verbatim>\<open>kid\<close>, or the first error among the three: the same public
  key for both, with no generation.
\<close>

theorem getPrivateKey_lookup_order:
  "(\<forall>k. privateJwk g = Some k \<longrightarrow> getPrivateKey cr g ks = (Inr (Some k), g, ks))
   \<and> (\<forall>jwks. privateJwk g = None \<and> storage ks (storageKey g) = Some jwks \<longrightarrow>
         getPrivateKey cr g ks = (Inr (js_index jwks 0), g\<lparr>privateJwk := js_index jwks 0\<rparr>, ks))
   \<and> (privateJwk g = None \<and> storage ks (storageKey g) = None \<longrightarrow>
         generations (snd (snd (getPrivateKey cr g ks))) = Suc (generations ks)
         \<and> (\<forall>privateKey m.
               generateKeyPair cr (generations ks) (gen_alg g) = Inr privateKey
               \<and> exportJWK cr privateKey = Inr m \<longrightarrow>
               getPrivateKey cr g ks =
                 (Inr (Some \<lparr>alg = gen_alg g, kid = None, material = m\<rparr>),
                  g\<lparr>privateJwk := Some \<lparr>alg = gen_alg g, kid = None, material = m\<rparr>\<rparr>,
                  ks\<lparr>generations := Suc (generations ks),
                     storage := (storage ks)(storageKey g \<mapsto>
                                  [\<lparr>alg = gen_alg g, kid = None, material = m\<rparr>])\<rparr>)))
   \<and> (snd (snd (getPrivateKey cr g ks)) \<noteq> ks \<longrightarrow>
         privateJwk g = None \<and> storage ks (storageKey g) = None)
   \<and> (\<forall>k g1 ks1 a.
         privateJwk g = None \<and> getPrivateKey cr g ks = (Inr (Some k), g1, ks1) \<longrightarrow>
         getPrivateKey cr (new_JwkGenerator a (storageKey g)) ks1 =
           (Inr (Some k), (new_JwkGenerator a (storageKey g))\<lparr>privateJwk := Some k\<rparr>, ks1)
         \<and> fst (getPublicKey cr (new_JwkGenerator a (storageKey g)) ks1) =
               (case importJWK cr (Some k) of
                  Inl e \<Rightarrow> Inl e
                | Inr privateKey \<Rightarrow>
                    (case createPublicKey cr privateKey of
                       Inl e \<Rightarrow> Inl e
                     | Inr publicKey \<Rightarrow>
                         (case exportJWK cr publicKey of
                            Inl e \<Rightarrow> Inl e
                          | Inr m \<Rightarrow> Inr \<lparr>alg = alg k, kid = None, material = m\<rparr>)))
         \<and> snd (snd (getPublicKey cr (new_JwkGenerator a (storageKey g)) ks1)) = ks1
         \<and> (publicJwk g = None \<longrightarrow>
               fst (getPublicKey cr g1 ks1) =
               (case importJWK cr (Some k) of
                  Inl e \<Rightarrow> Inl e
                | Inr privateKey \<Rightarrow>
                    (case createPublicKey cr privateKey of
                       Inl e \<Rightarrow> Inl e
                     | Inr publicKey \<Rightarrow>
                         (case exportJWK cr publicKey of
                            Inl e \<Rightarrow> Inl e
                          | Inr m \<Rightarrow> Inr \<lparr>alg = alg k, kid = None, material = m\<rparr>)))
               \<and> snd (snd (getPublicKey cr g1 ks1)) = ks1
               \<and> fst (getPublicKey cr (new_JwkGenerator a (storageKey g)) ks1) =
                   fst (getPublicKey cr g1 ks1)))"
proof (intro conjI allI impI)
  fix k assume "privateJwk g = Some k"
  then show "getPrivateKey cr g ks = (Inr (Some k), g, ks)"
    by (rule getPrivateKey_cached)
next
  fix jwks assume "privateJwk g = None \<and> storage ks (storageKey g) = Some jwks"
  then show "getPrivateKey cr g ks = (Inr (js_index jwks 0), g\<lparr>privateJwk := js_index jwks 0\<rparr>, ks)"
    by (simp add: getPrivateKey_stored)
next
  assume "privateJwk g = None \<and> storage ks (storageKey g) = None"
  then show "generations (snd (snd (getPrivateKey cr g ks))) = Suc (generations ks)"
    by (simp add: getPrivateKey_def Let_def split: sum.splits)
next
  fix privateKey m
  assume "privateJwk g = None \<and> storage ks (storageKey g) = None"
    and "generateKeyPair cr (generations ks) (gen_alg g) = Inr privateKey
           \<and> exportJWK cr privateKey = Inr m"
  then show "getPrivateKey cr g ks =
                 (Inr (Some \<lparr>alg = gen_alg g, kid = None, material = m\<rparr>),
                  g\<lparr>privateJwk := Some \<lparr>alg = gen_alg g, kid = None, material = m\<rparr>\<rparr>,
                  ks\<lparr>generations := Suc (generations ks),
                     storage := (storage ks)(storageKey g \<mapsto>
                                  [\<lparr>alg = gen_alg g, kid = None, material = m\<rparr>])\<rparr>)"
    by (simp add: getPrivateKey_def Let_def)
next
  assume changed: "snd (snd (getPrivateKey cr g ks)) \<noteq> ks"
  show "privateJwk g = None"
  proof (rule ccontr)
    assume "privateJwk g \<noteq> None"
    then obtain k where "privateJwk g = Some k" by auto
    from getPrivateKey_cached [OF this] changed show False by simp
  qed
  then have none: "privateJwk g = None" .
  show "storage ks (storageKey g) = None"
  proof (rule ccontr)
    assume "storage ks (storageKey g) \<noteq> None"
    then obtain jwks where "storage ks (storageKey g) = Some jwks" by auto
    from getPrivateKey_stored [OF none this] changed show False by simp
  qed
next
  fix k g1 ks1 a
  assume h: "privateJwk g = None \<and> getPrivateKey cr g ks = (Inr (Some k), g1, ks1)"
  then have none: "privateJwk g = None"
    and got: "getPrivateKey cr g ks = (Inr (Some k), g1, ks1)" by simp_all
  from getPrivateKey_persisted [OF none got, THEN conjunct1]
  obtain jwks where stored: "storage ks1 (storageKey g) = Some jwks" "js_index jwks 0 = Some k"
    by blast
  have fresh: "privateJwk (new_JwkGenerator a (storageKey g) :: 'a JwkGenerator) = None"
    "storageKey (new_JwkGenerator a (storageKey g) :: 'a JwkGenerator) = storageKey g"
    by (simp_all add: new_JwkGenerator_def)
  from stored fresh
  show again: "getPrivateKey cr (new_JwkGenerator a (storageKey g)) ks1 =
           (Inr (Some k), (new_JwkGenerator a (storageKey g))\<lparr>privateJwk := Some k\<rparr>, ks1)"
    by (simp add: getPrivateKey_stored)
  have no_public: "publicJwk (new_JwkGenerator a (storageKey g) :: 'a JwkGenerator) = None"
    by (simp add: new_JwkGenerator_def)
  from no_public again
  show derived: "fst (getPublicKey cr (new_JwkGenerator a (storageKey g)) ks1) =
               (case importJWK cr (Some k) of
                  Inl e \<Rightarrow> Inl e
                | Inr privateKey \<Rightarrow>
                    (case createPublicKey cr privateKey of
                       Inl e \<Rightarrow> Inl e
                     | Inr publicKey \<Rightarrow>
                         (case exportJWK cr publicKey of
                            Inl e \<Rightarrow> Inl e
                          | Inr m \<Rightarrow> Inr \<lparr>alg = alg k, kid = None, material = m\<rparr>)))"
    by (simp add: getPublicKey_def Let_def split: sum.splits)
  from no_public again
  show "snd (snd (getPublicKey cr (new_JwkGenerator a (storageKey g)) ks1)) = ks1"
    by (simp add: getPublicKey_def Let_def split: sum.splits)
  assume nopub: "publicJwk g = None"
  from getPrivateKey_persisted [OF none got, THEN conjunct2] have g1: "g1 = g\<lparr>privateJwk := Some k\<rparr>" .
  then have cached: "getPrivateKey cr g1 ks1 = (Inr (Some k), g1, ks1)"
    by (simp add: getPrivateKey_cached)
  have nopub1: "publicJwk g1 = None" using g1 nopub by simp
  from nopub1 cached
  show derived1: "fst (getPublicKey cr g1 ks1) =
               (case importJWK cr (Some k) of
                  Inl e \<Rightarrow> Inl e
                | Inr privateKey \<Rightarrow>
                    (case createPublicKey cr privateKey of
                       Inl e \<Rightarrow> Inl e
                     | Inr publicKey \<Rightarrow>
                         (case exportJWK cr publicKey of
                            Inl e \<Rightarrow> Inl e
                          | Inr m \<Rightarrow> Inr \<lparr>alg = alg k, kid = None, material = m\<rparr>)))"
    by (simp add: getPublicKey_def Let_def split: sum.splits)
  from nopub1 cached
  show "snd (snd (getPublicKey cr g1 ks1)) = ks1"
    by (simp add: getPublicKey_def Let_def split: sum.splits)
  from derived derived1
  show "fst (getPublicKey cr (new_JwkGenerator a (storageKey g)) ks1) =
               fst (getPublicKey cr g1 ks1)"
    by simp
qed


theorem getPrivateKey_lookup_order_witness:
  "fst first_call = Inr (Some \<lparr>alg = ES256, kid = None, material = 0\<rparr>)
   \<and> generations (snd (snd first_call)) = 1
   \<and> getPrivateKey mock_crypto (new_JwkGenerator ES256 ''jwks'') (snd (snd first_call)) =
       (Inr (Some \<lparr>alg = ES256, kid = None, material = 0\<rparr>),
        (new_JwkGenerator ES256 ''jwks'')
          \<lparr>privateJwk := Some \<lparr>alg = ES256, kid = None, material = 0\<rparr>\<rparr>,
        snd (snd first_call))
   \<and> fst (getPublicKey mock_crypto (new_JwkGenerator ES256 ''jwks'') (snd (snd first_call))) =
       Inr \<lparr>alg = ES256, kid = None, material = 1\<rparr>
   \<and> fst (getPublicKey mock_crypto (fst (snd first_call)) (snd (snd first_call))) =
       Inr \<lparr>alg = ES256, kid = None, material = 1\<rparr>
   \<and> snd (snd (getPublicKey mock_crypto (new_JwkGenerator ES256 ''jwks'') (snd (snd first_call)))) =
       snd (snd first_call)
   \<and> fst (getPublicKey mock_crypto (new_JwkGenerator ES256 ''jwks'') (snd (snd first_call))) =
       fst (getPublicKey mock_crypto (fst (snd first_call)) (snd (snd first_call)))"
proof -
  let ?g = "new_JwkGenerator ES256 ''jwks'' :: nat JwkGenerator"
  let ?k = "\<lparr>alg = ES256, kid = None, material = 0 :: nat\<rparr>"
  have key: "storageKey ?g = ''jwks''" and no_cache: "privateJwk ?g = None"
    and no_public: "publicJwk ?g = None"
    by (simp_all add: new_JwkGenerator_def)
  have result: "fst first_call = Inr (Some ?k)"
    by code_simp
  have count: "generations (snd (snd first_call)) = 1"
    by code_simp
  have call: "getPrivateKey mock_crypto ?g empty_store =
                (Inr (Some ?k), fst (snd first_call), snd (snd first_call))"
    using result by (simp add: first_call_def prod_eq_iff)
  note t = getPrivateKey_lookup_order [of ?g mock_crypto empty_store,
             THEN conjunct2, THEN conjunct2, THEN conjunct2, THEN conjunct2, rule_format,
             OF conjI [OF no_cache call], of ES256, unfolded key]
  note first = t [THEN conjunct2, THEN conjunct2, THEN conjunct2, rule_format, OF no_public]
  have fresh_public:
    "fst (getPublicKey mock_crypto ?g (snd (snd first_call))) =
       Inr \<lparr>alg = ES256, kid = None, material = 1\<rparr>"
    using t [THEN conjunct2, THEN conjunct1] by (simp add: mock_crypto_def)
  have first_public:
    "fst (getPublicKey mock_crypto (fst (snd first_call)) (snd (snd first_call))) =
       Inr \<lparr>alg = ES256, kid = None, material = 1\<rparr>"
    using first [THEN conjunct1] by (simp add: mock_crypto_def)
  show ?thesis
    apply (intro conjI)
          apply (rule result)
         apply (rule count)
        apply (rule t [THEN conjunct1])
       apply (rule fresh_public)
      apply (rule first_public)
     apply (rule t [THEN conjunct2, THEN conjunct2, THEN conjunct1])
    apply (rule first [THEN conjunct2, THEN conjunct2])
    done
qed

text \<open>
  Claim C8. Every request that a call of \<^verbatim>\<open>SignedFetcher.fetch\<close> hands to the network
  layer has the signature parameter \<^verbatim>\<open>keyid\<close> equal to \<^verbatim>\<open>TODO\<close>, and every key
  that \<^verbatim>\<open>GET /.well-known/jwks.json\<close> publishes has the \<^verbatim>\<open>kid\<close> \<^verbatim>\<open>TODO\<close>: the
  two are equal.
\<close>

theorem signature_keyid_is_published_kid:
  assumes call: "SignedFetcher_fetch pf b st input init = (r, st1)"
      and emitted: "outbound st1 = outbound st @ sent"
      and signed: "signed \<in> set sent"
      and jwks: "getJWKSConfig pf' st' = (Inr resp, st2)"
      and published: "res_body resp = Json_keys ks"
      and key: "key \<in> set ks"
  shows "sig_keyid signed = Some ''TODO'' \<and> kid key = Some ''TODO''
         \<and> sig_keyid signed = kid key"
proof -
  from SignedFetcher_fetch_outbound [OF call] emitted signed
  have keyid: "sig_keyid signed = Some ''TODO''"
    by auto
  from getJWKSConfig_kid [OF jwks] published key
  have "kid key = Some ''TODO''"
    by auto
  with keyid show ?thesis by simp
qed

theorem signature_keyid_is_published_kid_witness:
  "outbound (snd (SignedFetcher_fetch (mock_platform (mock_AS Null)) ''http://localhost:3565''
       (initial_state :: (nat, nat) server_state) (Str ''http://localhost:4000/uma/ticket'')
       (ticket_init ''http://localhost:3565/r1''))) = [signed_ticket_request]
   \<and> fst (getJWKSConfig (mock_platform (mock_AS Null)) (initial_state :: (nat, nat) server_state)) =
       Inr \<lparr>statusCode = 200, res_headers = [],
            res_body = Json_keys [\<lparr>alg = ES256, kid = Some ''TODO'', material = 1\<rparr>]\<rparr>
   \<and> sig_keyid signed_ticket_request = kid \<lparr>alg = ES256, kid = Some ''TODO'', material = 1 :: nat\<rparr>"
proof -
  let ?pf = "mock_platform (mock_AS Null)"
  let ?st = "initial_state :: (nat, nat) server_state"
  let ?call = "SignedFetcher_fetch ?pf ''http://localhost:3565'' ?st
                 (Str ''http://localhost:4000/uma/ticket'') (ticket_init ''http://localhost:3565/r1'')"
  let ?key = "\<lparr>alg = ES256, kid = Some ''TODO'', material = 1 :: nat\<rparr>"
  let ?resp = "\<lparr>statusCode = 200, res_headers = [], res_body = Json_keys [?key]\<rparr>"
  have out: "outbound (snd ?call) = [signed_ticket_request]"
    by code_simp
  have call: "?call = (fst ?call, snd ?call)"
    by simp
  have emitted: "outbound (snd ?call) = outbound ?st @ [signed_ticket_request]"
    using out by (simp add: initial_state_def)
  have signed: "signed_ticket_request \<in> set [signed_ticket_request]"
    by simp
  have page: "fst (getJWKSConfig ?pf ?st) = Inr ?resp"
    by code_simp
  then have jwks: "getJWKSConfig ?pf ?st = (Inr ?resp, snd (getJWKSConfig ?pf ?st))"
    by (simp add: prod_eq_iff)
  have published: "res_body ?resp = Json_keys [?key]"
    by simp
  have key: "?key \<in> set [?key]"
    by simp
  from signature_keyid_is_published_kid [OF call emitted signed jwks published key]
  have "sig_keyid signed_ticket_request = kid ?key"
    by (rule conjunct2 [THEN conjunct2])
  with out page show ?thesis
    by (intro conjI)
qed

end
